theory Spec2Isabelle
  imports Complex_Main
begin

section \<open>Python values, exceptions and the outside world\<close>

text \<open>
  The data access layer of \<^verbatim>\<open>supabase_dal.py\<close> talks to three things outside the
  process: the wall clock (\<^verbatim>\<open>time.time()\<close>), the identity service
  (\<^verbatim>\<open>client.auth.sign_in\<close>) and the HTTP gateway (\<^verbatim>\<open>.execute()\<close> of the table
  client, \<^verbatim>\<open>requests.delete\<close>, \<^verbatim>\<open>requests.post\<close>). The model threads a \<open>world\<close>
  through every method: it holds what the outside will answer and records what the code
  has sent and logged.

  JSON-like Python values. Floats are left out: the status codes and table rows of this
  file never hold one.
\<close>

datatype pyval =
    PNone
  | PBool bool
  | PInt int
  | PStr string
  | PList "pyval list"
  | PDict "(string \<times> pyval) list"

text \<open>A Python \<^verbatim>\<open>Dict[str, Any]\<close>: a wire row, RPC parameters, an operation result.\<close>

type_synonym pydict = "string \<rightharpoonup> pyval"

text \<open>Python truthiness (\<^verbatim>\<open>if x\<close>, \<^verbatim>\<open>x and y\<close>).\<close>

fun truthy :: "pyval \<Rightarrow> bool" where
  "truthy PNone = False"
| "truthy (PBool b) = b"
| "truthy (PInt n) = (n \<noteq> 0)"
| "truthy (PStr s) = (s \<noteq> [])"
| "truthy (PList xs) = (xs \<noteq> [])"
| "truthy (PDict kvs) = (kvs \<noteq> [])"

text \<open>
  Instances of Python's \<^verbatim>\<open>Exception\<close> class. \<open>Exception m v\<close> is \<^verbatim>\<open>Exception(f"m{v}")\<close>
  as the file raises it: the fixed text and the one value formatted into it.
  \<open>Raised n\<close> is an exception raised by a library or the transport (named \<open>n\<close>).
  Process signals that derive from \<^verbatim>\<open>BaseException\<close> only (\<^verbatim>\<open>KeyboardInterrupt\<close>,
  \<^verbatim>\<open>SystemExit\<close>) are not modelled.
\<close>

datatype exn =
    Exception string "pyval option"
  | KeyError string
  | TypeError
  | Raised string

datatype level = DEBUG | INFO | ERROR

text \<open>
  A raw \<^verbatim>\<open>requests.Response\<close>: \<open>json_value\<close> is what \<^verbatim>\<open>response.json()\<close> returns,
  \<open>None\<close> when it raises.
\<close>

record response =
  status_code :: int
  content :: string
  json_value :: "pyval option"

text \<open>
  What goes out. \<open>Insert t p u\<close> is \<^verbatim>\<open>client.table(t).insert(p, upsert=u).execute()\<close>,
  \<open>Select t cols fs lim\<close> is \<^verbatim>\<open>client.table(t).select(*cols).filter(..)...[.limit(lim)].execute()\<close>,
  \<open>Delete t fs\<close> is the \<^verbatim>\<open>requests.delete\<close> built from \<^verbatim>\<open>client.table(t).delete().eq(..)...\<close>,
  \<open>Rpc f params\<close> is the \<^verbatim>\<open>requests.post\<close> to \<^verbatim>\<open>rpc/f\<close>, and \<open>Auth_sign_in e p\<close> is
  \<^verbatim>\<open>client.auth.sign_in(email=e, password=p)\<close>.
\<close>

datatype payload = Rows "pydict list" | Row pydict

type_synonym filters = "(string \<times> string \<times> pyval) list"

datatype request =
    Insert string payload bool
  | Select string "string list" filters "nat option"
  | Delete string filters
  | Rpc string pydict
  | Auth_sign_in string string

text \<open>
  \<open>clock n\<close> is what the \<open>n\<close>-th call of \<^verbatim>\<open>time.time()\<close> returns and \<open>ticks\<close> counts
  the calls made so far. The three reply fields give the outcome of a network call by its
  position in \<open>sent\<close>: an exception (\<open>Inl\<close>, for \<open>auth_reply\<close> \<open>Some\<close>) or a value.
  \<open>SUPABASE_LOGIN_RATE_LIMIT_SEC\<close> is the constant of that name imported from
  \<^verbatim>\<open>robusta.core.model.env_vars\<close>, whose value is read from the process environment.
\<close>

record world =
  SUPABASE_LOGIN_RATE_LIMIT_SEC :: real
  clock :: "nat \<Rightarrow> real"
  ticks :: nat
  auth_reply :: "nat \<Rightarrow> exn option"
  execute_reply :: "nat \<Rightarrow> exn + pydict"
  requests_reply :: "nat \<Rightarrow> exn + response"
  sent :: "request list"
  log_lines :: "(level \<times> string) list"

text \<open>The fields of a \<^verbatim>\<open>SupabaseDal\<close> object.\<close>

record dal =
  url :: string
  key :: string
  account_id :: string
  cluster :: string
  email :: string
  password :: string
  sign_in_time :: real
  sink_name :: string
  signing_key :: string

text \<open>A method returns or raises, and leaves the object and the world changed.\<close>

type_synonym 'a outcome = "(exn + 'a) \<times> dal \<times> world"

definition time_time :: "world \<Rightarrow> real \<times> world" where
  "time_time w = (clock w (ticks w), w\<lparr>ticks := Suc (ticks w)\<rparr>)"

text \<open>
  A log line is kept as its level and its format template, each formatted value written
  \<open>{}\<close>.
\<close>

definition logging :: "level \<Rightarrow> string \<Rightarrow> world \<Rightarrow> world" where
  "logging lv m w = w\<lparr>log_lines := log_lines w @ [(lv, m)]\<rparr>"

definition auth_sign_in :: "string \<Rightarrow> string \<Rightarrow> world \<Rightarrow> (exn + unit) \<times> world" where
  "auth_sign_in e p w =
     ((case auth_reply w (length (sent w)) of Some x \<Rightarrow> Inl x | None \<Rightarrow> Inr ()),
      w\<lparr>sent := sent w @ [Auth_sign_in e p]\<rparr>)"

definition client_execute :: "request \<Rightarrow> world \<Rightarrow> (exn + pydict) \<times> world" where
  "client_execute rq w = (execute_reply w (length (sent w)), w\<lparr>sent := sent w @ [rq]\<rparr>)"

definition requests_send :: "request \<Rightarrow> world \<Rightarrow> (exn + response) \<times> world" where
  "requests_send rq w = (requests_reply w (length (sent w)), w\<lparr>sent := sent w @ [rq]\<rparr>)"

text \<open>Counting the calls to the identity service.\<close>

fun is_auth :: "request \<Rightarrow> bool" where
  "is_auth (Auth_sign_in e p) = True"
| "is_auth rq = False"

definition auth_calls :: "world \<Rightarrow> nat" where
  "auth_calls w = length (filter is_auth (sent w))"

section \<open>Session manager: \<^verbatim>\<open>sign_in\<close> and \<^verbatim>\<open>handle_supabase_error\<close>\<close>

text \<open>
  \<^verbatim>\<open>
  def sign_in(self):
      if time.time() > self.sign_in_time + SUPABASE_LOGIN_RATE_LIMIT_SEC:
          logging.info("Supabase dal login")
          self.sign_in_time = time.time()
          self.client.auth.sign_in(email=self.email, password=self.password)
  \<close>
  The clock is read twice; the second reading is the one stored, and it is stored before
  the identity service is called.
\<close>

definition sign_in :: "dal \<Rightarrow> world \<Rightarrow> unit outcome" where
  "sign_in d w =
     (case time_time w of (now, w1) \<Rightarrow>
        if now > sign_in_time d + SUPABASE_LOGIN_RATE_LIMIT_SEC w1 then
          (case time_time (logging INFO ''Supabase dal login'' w1) of (t, w2) \<Rightarrow>
             (case auth_sign_in (email d) (password d) w2 of (r, w3) \<Rightarrow>
                (r, d\<lparr>sign_in_time := t\<rparr>, w3)))
        else (Inr (), d, w1))"

text \<open>
  \<^verbatim>\<open>
  def handle_supabase_error(self):
      try:
          self.sign_in()
      except Exception:
          logging.error("Failed to sign in on error", exc_info=True)
  \<close>
\<close>

definition handle_supabase_error :: "dal \<Rightarrow> world \<Rightarrow> unit outcome" where
  "handle_supabase_error d w =
     (case sign_in d w of
        (Inl e, d1, w1) \<Rightarrow> (Inr (), d1, logging ERROR ''Failed to sign in on error'' w1)
      | (Inr u, d1, w1) \<Rightarrow> (Inr (), d1, w1))"

text \<open>
  \<^verbatim>\<open>__init__\<close> stores its arguments, builds the client, sets \<^verbatim>\<open>sign_in_time = 0\<close> and
  signs in at once. \<^verbatim>\<open>RobustaClient(url, key)\<close> runs the constructor of the library's
  \<^verbatim>\<open>Client\<close>, which raises when the url or the key is empty. An exception of the
  constructor or of that first sign-in leaves no object. (The source assigns
  \<^verbatim>\<open>sink_name\<close> and \<^verbatim>\<open>signing_key\<close> after the sign-in, which reads neither.)
\<close>

definition init ::
  "string \<Rightarrow> string \<Rightarrow> string \<Rightarrow> string \<Rightarrow> string \<Rightarrow> string \<Rightarrow> string \<Rightarrow> string \<Rightarrow> world
     \<Rightarrow> (exn + dal) \<times> world" where
  "init url' key' account_id' email' password' sink_name' cluster_name signing_key' w =
     (if url' = [] then (Inl (Exception ''supabase_url is required'' None), w)
      else if key' = [] then (Inl (Exception ''supabase_key is required'' None), w)
      else
        (case sign_in \<lparr>url = url', key = key', account_id = account_id', cluster = cluster_name,
                        email = email', password = password', sign_in_time = 0,
                        sink_name = sink_name', signing_key = signing_key'\<rparr> w of
           (Inl e, d, w1) \<Rightarrow> (Inl e, w1)
         | (Inr u, d, w1) \<Rightarrow> (Inr d, w1)))"

section \<open>Status checks\<close>

text \<open>
  \<^verbatim>\<open>res.get("status_code") != 201\<close> and \<^verbatim>\<open>res.get("status_code") not in [200, 201]\<close>:
  \<^verbatim>\<open>.get\<close> gives \<open>None\<close> for a missing key, and Python compares \<^verbatim>\<open>True\<close> as 1 and
  \<^verbatim>\<open>False\<close> as 0.
\<close>

fun py_eq_int :: "pyval option \<Rightarrow> int \<Rightarrow> bool" where
  "py_eq_int (Some (PInt n)) k = (n = k)"
| "py_eq_int (Some (PBool b)) k = ((if b then 1 else 0) = k)"
| "py_eq_int v k = False"

definition py_in :: "pyval option \<Rightarrow> int list \<Rightarrow> bool" where
  "py_in v ks = list_ex (py_eq_int v) ks"

text \<open>
  The failure tail shared by the raising operations, after their \<^verbatim>\<open>logging.error\<close>:
  \<^verbatim>\<open>self.handle_supabase_error(); raise Exception(...)\<close>.
\<close>

definition handle_then_raise :: "exn \<Rightarrow> dal \<Rightarrow> world \<Rightarrow> 'a outcome" where
  "handle_then_raise ex d w =
     (case handle_supabase_error d w of
        (Inl e, d1, w1) \<Rightarrow> (Inl e, d1, w1)
      | (Inr u, d1, w1) \<Rightarrow> (Inl ex, d1, w1))"

section \<open>Table names\<close>

definition SERVICES_TABLE :: string where "SERVICES_TABLE = ''Services''"
definition NODES_TABLE :: string where "NODES_TABLE = ''Nodes''"
definition EVIDENCE_TABLE :: string where "EVIDENCE_TABLE = ''Evidence''"
definition ISSUES_TABLE :: string where "ISSUES_TABLE = ''Issues''"
definition CLUSTERS_STATUS_TABLE :: string where "CLUSTERS_STATUS_TABLE = ''ClustersStatus''"
definition JOBS_TABLE :: string where "JOBS_TABLE = ''Jobs''"
definition HELM_RELEASES_TABLE :: string where "HELM_RELEASES_TABLE = ''HelmReleases''"
definition NAMESPACES_TABLE :: string where "NAMESPACES_TABLE = ''Namespaces''"
definition UPDATE_CLUSTER_NODE_COUNT :: string where
  "UPDATE_CLUSTER_NODE_COUNT = ''update_cluster_node_count''"
definition SCANS_RESULT_TABLE :: string where "SCANS_RESULT_TABLE = ''ScansResults''"

section \<open>Response normalisation: \<^verbatim>\<open>__delete_patch\<close> and \<^verbatim>\<open>__rpc_patch\<close>\<close>

text \<open>\<^verbatim>\<open>response.json()\<close> returns the parsed body or raises.\<close>

definition response_json :: "response \<Rightarrow> exn + pyval" where
  "response_json r =
     (case json_value r of None \<Rightarrow> Inl (Raised ''JSONDecodeError'') | Some v \<Rightarrow> Inr v)"

text \<open>
  \<^verbatim>\<open>
  response = requests.delete(f"{url}?{query}", headers=...)
  response_data = ""
  try:
      response_data = response.json()
  except Exception:
      logging.debug("Failed to parse delete response data")
  return {"data": response_data, "status_code": response.status_code}
  \<close>
  before which the query is built:
  \<^verbatim>\<open>
  query: str = str(supabase_request_obj.session.params).replace("%22", "")
  \<close>
  The request is recorded by its table and by the filters its query carries. The query
  text is the percent-encoded form of the filters, in which \<^verbatim>\<open>%22\<close> stands for a double
  quote and for nothing else (a percent sign is itself encoded); the client library puts
  a value holding one of \<^verbatim>\<open>,.:()\<close> between double quotes. Removing every \<^verbatim>\<open>%22\<close> from
  the text therefore leaves each name, operator and value of the query without any double
  quote, those of the value itself included. The values the source passes to \<^verbatim>\<open>.eq\<close> are
  strings.
\<close>

definition remove_double_quotes :: "string \<Rightarrow> string" where
  "remove_double_quotes s = filter (\<lambda>c. c \<noteq> CHR 0x22) s"

definition strip_query :: "filters \<Rightarrow> filters" where
  "strip_query fs =
     map (\<lambda>(column, operator, v).
            (remove_double_quotes column, remove_double_quotes operator,
             (case v of PStr s \<Rightarrow> PStr (remove_double_quotes s) | _ \<Rightarrow> v))) fs"

definition delete_patch :: "string \<Rightarrow> filters \<Rightarrow> world \<Rightarrow> (exn + pydict) \<times> world" where
  "delete_patch table fs w =
     (case requests_send (Delete table (strip_query fs)) w of
        (Inl e, w1) \<Rightarrow> (Inl e, w1)
      | (Inr response, w1) \<Rightarrow>
          (case response_json response of
             Inl e \<Rightarrow>
               (Inr [''data'' \<mapsto> PStr [], ''status_code'' \<mapsto> PInt (status_code response)],
                logging DEBUG ''Failed to parse delete response data'' w1)
           | Inr v \<Rightarrow>
               (Inr [''data'' \<mapsto> v, ''status_code'' \<mapsto> PInt (status_code response)], w1)))"

text \<open>
  \<^verbatim>\<open>
  response = requests.post(url, headers=builder.session.headers, json=params)
  response_data = {}
  try:
      if response.content:
          response_data = response.json()
  except Exception:
      logging.debug("Failed to parse delete response data")
  return {"data": response_data, "status_code": response.status_code}
  \<close>
\<close>

definition rpc_patch :: "string \<Rightarrow> pydict \<Rightarrow> world \<Rightarrow> (exn + pydict) \<times> world" where
  "rpc_patch func_name params w =
     (case requests_send (Rpc func_name params) w of
        (Inl e, w1) \<Rightarrow> (Inl e, w1)
      | (Inr response, w1) \<Rightarrow>
          (case (if content response \<noteq> [] then response_json response else Inr (PDict [])) of
             Inl e \<Rightarrow>
               (Inr [''data'' \<mapsto> PDict [], ''status_code'' \<mapsto> PInt (status_code response)],
                logging DEBUG ''Failed to parse delete response data'' w1)
           | Inr v \<Rightarrow>
               (Inr [''data'' \<mapsto> v, ''status_code'' \<mapsto> PInt (status_code response)], w1)))"

section \<open>Entities and their wire rows\<close>

text \<open>
  The entity classes live in \<^verbatim>\<open>robusta.core.model\<close>, outside this file. An entity is
  modelled by what this file reads from it: the fields it names, the value of its
  \<^verbatim>\<open>.dict()\<close> and of its \<^verbatim>\<open>get_service_key()\<close> (for a job a string, which
  \<^verbatim>\<open>remove_deleted_job\<close> passes to \<^verbatim>\<open>.eq\<close>). \<open>service_config\<close> is \<open>None\<close> for a
  missing config and otherwise holds \<^verbatim>\<open>service_config.dict()\<close>.
\<close>

record service_info =
  name :: pyval
  service_type :: pyval
  namespace :: pyval
  classification :: pyval
  deleted :: pyval
  service_config :: "pyval option"
  total_pods :: pyval
  ready_pods :: pyval
  service_key :: pyval

record node_info =
  node_dict :: pydict

record job_info =
  job_dict :: pydict
  job_service_key :: string

record helm_release =
  helm_release_dict :: pydict
  helm_release_service_key :: pyval

record namespace_info =
  namespace_dict :: pydict

record scan_report_row =
  row_dict :: pydict

record cluster_status =
  status_dict :: pydict
  last_alert_at :: pyval
  light_actions :: "pyval list"

definition to_db_scanResult :: "dal \<Rightarrow> scan_report_row \<Rightarrow> pydict" where
  "to_db_scanResult d scanResult =
     (row_dict scanResult)
       (''account_id'' \<mapsto> PStr (account_id d), ''cluster_id'' \<mapsto> PStr (cluster d))"

definition to_service :: "dal \<Rightarrow> service_info \<Rightarrow> pydict" where
  "to_service d service =
     [''name'' \<mapsto> name service,
      ''type'' \<mapsto> service_type service,
      ''namespace'' \<mapsto> namespace service,
      ''classification'' \<mapsto> classification service,
      ''cluster'' \<mapsto> PStr (cluster d),
      ''account_id'' \<mapsto> PStr (account_id d),
      ''deleted'' \<mapsto> deleted service,
      ''service_key'' \<mapsto> service_key service,
      ''config'' \<mapsto> (case service_config service of Some c \<Rightarrow> c | None \<Rightarrow> PNone),
      ''total_pods'' \<mapsto> total_pods service,
      ''ready_pods'' \<mapsto> ready_pods service,
      ''update_time'' \<mapsto> PStr ''now()'']"

definition to_db_node :: "dal \<Rightarrow> node_info \<Rightarrow> pydict" where
  "to_db_node d node =
     (node_dict node)
       (''account_id'' \<mapsto> PStr (account_id d), ''cluster_id'' \<mapsto> PStr (cluster d),
        ''updated_at'' \<mapsto> PStr ''now()'')"

definition to_db_job :: "dal \<Rightarrow> job_info \<Rightarrow> pydict" where
  "to_db_job d job =
     (job_dict job)
       (''account_id'' \<mapsto> PStr (account_id d), ''cluster_id'' \<mapsto> PStr (cluster d),
        ''service_key'' \<mapsto> PStr (job_service_key job), ''updated_at'' \<mapsto> PStr ''now()'')"

definition to_db_helm_release :: "dal \<Rightarrow> helm_release \<Rightarrow> pydict" where
  "to_db_helm_release d hr =
     (helm_release_dict hr)
       (''account_id'' \<mapsto> PStr (account_id d), ''cluster_id'' \<mapsto> PStr (cluster d),
        ''service_key'' \<mapsto> helm_release_service_key hr, ''updated_at'' \<mapsto> PStr ''now()'')"

definition to_db_namespace :: "dal \<Rightarrow> namespace_info \<Rightarrow> pydict" where
  "to_db_namespace d ns =
     (namespace_dict ns)
       (''account_id'' \<mapsto> PStr (account_id d), ''cluster_id'' \<mapsto> PStr (cluster d),
        ''updated_at'' \<mapsto> PStr ''now()'')"

text \<open>
  \<^verbatim>\<open>
  db_cluster_status = data.dict()
  if data.last_alert_at is None:
      del db_cluster_status["last_alert_at"]
  db_cluster_status["updated_at"] = "now()"
  ...
  logging.info(f"cluster status {log_cluster_status}")
  return db_cluster_status
  \<close>
  No tenant field is written here: the row carries whatever \<^verbatim>\<open>data.dict()\<close> holds.
\<close>

definition to_db_cluster_status :: "cluster_status \<Rightarrow> world \<Rightarrow> (exn + pydict) \<times> world" where
  "to_db_cluster_status data w =
     (if last_alert_at data = PNone \<and> status_dict data ''last_alert_at'' = None
      then (Inl (KeyError ''last_alert_at''), w)
      else
        (Inr ((if last_alert_at data = PNone
               then (status_dict data)(''last_alert_at'' := None)
               else status_dict data)
              (''updated_at'' \<mapsto> PStr ''now()'')),
         logging INFO ''cluster status {}'' w))"

section \<open>Findings and scans\<close>

text \<open>
  A finding is read for its \<^verbatim>\<open>id\<close> and its enrichments; an enrichment for its blocks and
  annotations; a \<^verbatim>\<open>ScanReportBlock\<close> for the fields \<^verbatim>\<open>persist_scan\<close> sends
  (\<open>start_time\<close> and \<open>end_time\<close> hold \<^verbatim>\<open>str(block.start_time)\<close> and
  \<^verbatim>\<open>str(block.end_time)\<close>). \<open>SCAN\<close> is \<^verbatim>\<open>EnrichmentAnnotation.SCAN\<close>.
\<close>

datatype annotation = SCAN | Annotation string

record scan_report_block =
  scan_id :: pyval
  start_time :: string
  end_time :: string
  scan_type :: pyval
  score :: pyval
  results :: "scan_report_row list"

datatype block = ScanReportBlock scan_report_block | OtherBlock

record enrichment =
  blocks :: "block list"
  annotations :: "annotation \<rightharpoonup> pyval"

record finding =
  finding_id :: pyval
  enrichments :: "enrichment list"

text \<open>
  \<^verbatim>\<open>ModelConversion\<close> (module \<^verbatim>\<open>model_conversion\<close>) is not part of this file; its two
  functions are parameters of \<^verbatim>\<open>persist_finding\<close>.
\<close>

record model_conversion =
  to_evidence_json :: "string \<Rightarrow> string \<Rightarrow> string \<Rightarrow> string \<Rightarrow> pyval \<Rightarrow> enrichment \<Rightarrow> pydict"
  to_finding_json :: "string \<Rightarrow> string \<Rightarrow> finding \<Rightarrow> pydict"

text \<open>
  \<^verbatim>\<open>persist_scan\<close>: for each \<^verbatim>\<open>ScanReportBlock\<close> of the enrichment, insert the rows, then
  post the scan's metadata; any other block is skipped.
\<close>

fun persist_scan_blocks :: "block list \<Rightarrow> dal \<Rightarrow> world \<Rightarrow> unit outcome" where
  "persist_scan_blocks [] d w = (Inr (), d, w)"
| "persist_scan_blocks (OtherBlock # bs) d w = persist_scan_blocks bs d w"
| "persist_scan_blocks (ScanReportBlock b # bs) d w =
     (case client_execute
             (Insert SCANS_RESULT_TABLE (Rows (map (to_db_scanResult d) (results b))) False) w of
        (Inl e, w1) \<Rightarrow> (Inl e, d, w1)
      | (Inr res, w1) \<Rightarrow>
          if \<not> py_in (res ''status_code'') [200, 201] then
            handle_then_raise (Exception ''Failed to persist scan {} error: '' (res ''data'')) d
              (logging ERROR ''Failed to persist scan {} error: {}'' w1)
          else
            (case rpc_patch ''insert_scan_meta''
                    [''_account_id'' \<mapsto> PStr (account_id d),
                     ''_cluster'' \<mapsto> PStr (cluster d),
                     ''_scan_id'' \<mapsto> scan_id b,
                     ''_scan_start'' \<mapsto> PStr (start_time b),
                     ''_scan_end'' \<mapsto> PStr (end_time b),
                     ''_type'' \<mapsto> scan_type b,
                     ''_grade'' \<mapsto> score b] w1 of
               (Inl e, w2) \<Rightarrow> (Inl e, d, w2)
             | (Inr res2, w2) \<Rightarrow>
                 if \<not> py_in (res2 ''status_code'') [200, 201, 204] then
                   handle_then_raise
                     (Exception ''Failed to persist scan meta {} error: '' (res2 ''data'')) d
                     (logging ERROR ''Failed to persist scan meta {} error: {}'' w2)
                 else persist_scan_blocks bs d w2))"

definition persist_scan :: "enrichment \<Rightarrow> dal \<Rightarrow> world \<Rightarrow> unit outcome" where
  "persist_scan enrichment d w = persist_scan_blocks (blocks enrichment) d w"

text \<open>\<^verbatim>\<open>enrich.annotations.get(EnrichmentAnnotation.SCAN, False)\<close>, read as a condition.\<close>

definition is_scan :: "enrichment \<Rightarrow> bool" where
  "is_scan enrich = (case annotations enrich SCAN of None \<Rightarrow> False | Some v \<Rightarrow> truthy v)"

text \<open>\<^verbatim>\<open>for scan in scans: self.persist_scan(scan)\<close>\<close>

fun persist_scans :: "enrichment list \<Rightarrow> dal \<Rightarrow> world \<Rightarrow> unit outcome" where
  "persist_scans [] d w = (Inr (), d, w)"
| "persist_scans (scan # scans) d w =
     (case persist_scan scan d w of
        (Inl e, d1, w1) \<Rightarrow> (Inl e, d1, w1)
      | (Inr u, d1, w1) \<Rightarrow> persist_scans scans d1 w1)"

text \<open>
  \<^verbatim>\<open>
  for enrichment in enrichments:
      res = self.client.table(EVIDENCE_TABLE).insert(ModelConversion.to_evidence_json(...)).execute()
      if res.get("status_code") != 201:
          logging.error(f"Failed to persist finding {finding.id} enrichment {enrichment} error: ...")
  \<close>
\<close>

fun persist_evidence ::
  "model_conversion \<Rightarrow> finding \<Rightarrow> enrichment list \<Rightarrow> dal \<Rightarrow> world \<Rightarrow> unit outcome" where
  "persist_evidence mc f [] d w = (Inr (), d, w)"
| "persist_evidence mc f (enrichment # rest) d w =
     (case client_execute
             (Insert EVIDENCE_TABLE
                (Row (to_evidence_json mc (account_id d) (cluster d) (sink_name d) (signing_key d)
                        (finding_id f) enrichment)) False) w of
        (Inl e, w1) \<Rightarrow> (Inl e, d, w1)
      | (Inr res, w1) \<Rightarrow>
          persist_evidence mc f rest d
            (if \<not> py_eq_int (res ''status_code'') 201
             then logging ERROR ''Failed to persist finding {} enrichment {} error: {}'' w1
             else w1))"

definition persist_finding :: "model_conversion \<Rightarrow> finding \<Rightarrow> dal \<Rightarrow> world \<Rightarrow> unit outcome" where
  "persist_finding mc f d w =
     (let scans = filter is_scan (enrichments f);
          enrichments' = filter (\<lambda>enrich. \<not> is_scan enrich) (enrichments f)
      in case persist_scans scans d w of
           (Inl e, d1, w1) \<Rightarrow> (Inl e, d1, w1)
         | (Inr u, d1, w1) \<Rightarrow>
             if length scans > 0 \<and> length enrichments' = 0 then (Inr (), d1, w1)
             else
               (case persist_evidence mc f enrichments' d1 w1 of
                  (Inl e, d2, w2) \<Rightarrow> (Inl e, d2, w2)
                | (Inr u2, d2, w2) \<Rightarrow>
                    (case client_execute
                            (Insert ISSUES_TABLE
                               (Row (to_finding_json mc (account_id d2) (cluster d2) f)) False) w2 of
                       (Inl e, w3) \<Rightarrow> (Inl e, d2, w3)
                     | (Inr res, w3) \<Rightarrow>
                         if \<not> py_eq_int (res ''status_code'') 201 then
                           handle_supabase_error d2
                             (logging ERROR ''Failed to persist finding {} error: {}'' w3)
                         else (Inr (), d2, w3))))"

section \<open>Publishing\<close>

definition persist_services :: "service_info list \<Rightarrow> dal \<Rightarrow> world \<Rightarrow> unit outcome" where
  "persist_services services d w =
     (if services = [] then (Inr (), d, w)
      else
        (case client_execute (Insert SERVICES_TABLE (Rows (map (to_service d) services)) True) w of
           (Inl e, w1) \<Rightarrow> (Inl e, d, w1)
         | (Inr res, w1) \<Rightarrow>
             if \<not> py_in (res ''status_code'') [200, 201] then
               handle_then_raise
                 (Exception ''publish service failed. status: '' (res ''status_code'')) d
                 (logging ERROR ''Failed to persist services {} error: {}'' w1)
             else (Inr (), d, w1)))"

definition publish_nodes :: "node_info list \<Rightarrow> dal \<Rightarrow> world \<Rightarrow> unit outcome" where
  "publish_nodes nodes d w =
     (if nodes = [] then (Inr (), d, w)
      else
        (case client_execute (Insert NODES_TABLE (Rows (map (to_db_node d) nodes)) True) w of
           (Inl e, w1) \<Rightarrow> (Inl e, d, w1)
         | (Inr res, w1) \<Rightarrow>
             if \<not> py_in (res ''status_code'') [200, 201] then
               handle_then_raise
                 (Exception ''publish nodes failed. status: '' (res ''status_code'')) d
                 (logging ERROR ''Failed to persist node {} error: {}'' w1)
             else (Inr (), d, w1)))"

definition publish_jobs :: "job_info list \<Rightarrow> dal \<Rightarrow> world \<Rightarrow> unit outcome" where
  "publish_jobs jobs d w =
     (if jobs = [] then (Inr (), d, w)
      else
        (case client_execute (Insert JOBS_TABLE (Rows (map (to_db_job d) jobs)) True) w of
           (Inl e, w1) \<Rightarrow> (Inl e, d, w1)
         | (Inr res, w1) \<Rightarrow>
             if \<not> py_in (res ''status_code'') [200, 201] then
               handle_then_raise
                 (Exception ''publish jobs failed. status: '' (res ''status_code'')) d
                 (logging ERROR ''Failed to persist jobs {} error: {}'' w1)
             else (Inr (), d, w1)))"

definition publish_helm_releases :: "helm_release list \<Rightarrow> dal \<Rightarrow> world \<Rightarrow> unit outcome" where
  "publish_helm_releases helm_releases d w =
     (if helm_releases = [] then (Inr (), d, w)
      else
        (case client_execute
                (Insert HELM_RELEASES_TABLE (Rows (map (to_db_helm_release d) helm_releases)) True)
                (logging DEBUG ''[supabase] Publishing the helm_releases {}'' w) of
           (Inl e, w1) \<Rightarrow> (Inl e, d, w1)
         | (Inr res, w1) \<Rightarrow>
             if \<not> py_in (res ''status_code'') [200, 201] then
               handle_then_raise
                 (Exception ''publish helm_releases failed. status: '' (res ''status_code'')) d
                 (logging ERROR ''Failed to persist helm_releases {} error: {}'' w1)
             else (Inr (), d, w1)))"

definition publish_namespaces :: "namespace_info list \<Rightarrow> dal \<Rightarrow> world \<Rightarrow> unit outcome" where
  "publish_namespaces namespaces d w =
     (if namespaces = [] then (Inr (), d, w)
      else
        (case client_execute
                (Insert NAMESPACES_TABLE (Rows (map (to_db_namespace d) namespaces)) True) w of
           (Inl e, w1) \<Rightarrow> (Inl e, d, w1)
         | (Inr res, w1) \<Rightarrow>
             if \<not> py_in (res ''status_code'') [200, 201] then
               handle_then_raise
                 (Exception ''publish namespaces failed. status: '' (res ''status_code'')) d
                 (logging ERROR ''Failed to persist namespaces {} error: {}'' w1)
             else (Inr (), d, w1)))"

text \<open>
  \<^verbatim>\<open>publish_cluster_status\<close> logs and carries on; its error line formats
  \<^verbatim>\<open>self.to_db_cluster_status(cluster_status)\<close> a second time.
\<close>

definition publish_cluster_status :: "cluster_status \<Rightarrow> dal \<Rightarrow> world \<Rightarrow> unit outcome" where
  "publish_cluster_status cs d w =
     (case to_db_cluster_status cs w of
        (Inl e, w0) \<Rightarrow> (Inl e, d, w0)
      | (Inr row, w0) \<Rightarrow>
          (case client_execute (Insert CLUSTERS_STATUS_TABLE (Row row) True) w0 of
             (Inl e, w1) \<Rightarrow> (Inl e, d, w1)
           | (Inr res, w1) \<Rightarrow>
               if \<not> py_in (res ''status_code'') [200, 201] then
                 (case to_db_cluster_status cs w1 of
                    (Inl e, w2) \<Rightarrow> (Inl e, d, w2)
                  | (Inr row2, w2) \<Rightarrow>
                      handle_supabase_error d (logging ERROR ''Failed to upsert {} error: {}'' w2))
               else (Inr (), d, w1)))"

definition publish_cluster_nodes :: "pyval \<Rightarrow> dal \<Rightarrow> world \<Rightarrow> unit outcome" where
  "publish_cluster_nodes node_count d w =
     (case rpc_patch UPDATE_CLUSTER_NODE_COUNT
             [''_account_id'' \<mapsto> PStr (account_id d),
              ''_cluster_id'' \<mapsto> PStr (cluster d),
              ''_node_count'' \<mapsto> node_count] w of
        (Inl e, w1) \<Rightarrow> (Inl e, d, w1)
      | (Inr res, w1) \<Rightarrow>
          if \<not> py_in (res ''status_code'') [200, 201, 204] then
            (case handle_supabase_error d
                    (logging ERROR ''Failed to publish node count {} error: {}'' w1) of
               (Inl e, d2, w2) \<Rightarrow> (Inl e, d2, w2)
             | (Inr u, d2, w2) \<Rightarrow> (Inr (), d2, logging INFO ''cluster nodes: {} => {}'' w2))
          else (Inr (), d, logging INFO ''cluster nodes: {} => {}'' w1))"

text \<open>\<^verbatim>\<open>remove_deleted_job\<close>: \<^verbatim>\<open>if not job: return\<close>, then the raw delete.\<close>

definition remove_deleted_job :: "job_info option \<Rightarrow> dal \<Rightarrow> world \<Rightarrow> unit outcome" where
  "remove_deleted_job job d w =
     (case job of
        None \<Rightarrow> (Inr (), d, w)
      | Some j \<Rightarrow>
          (case delete_patch JOBS_TABLE
                  [(''account_id'', ''eq'', PStr (account_id d)),
                   (''cluster_id'', ''eq'', PStr (cluster d)),
                   (''service_key'', ''eq'', PStr (job_service_key j))] w of
             (Inl e, w1) \<Rightarrow> (Inl e, d, w1)
           | (Inr res, w1) \<Rightarrow>
               if \<not> py_in (res ''status_code'') [204, 200, 202] then
                 handle_then_raise
                   (Exception ''remove deleted job failed. status: '' (res ''status_code'')) d
                   (logging ERROR ''Failed to delete job {} error: {}'' w1)
               else (Inr (), d, w1)))"

section \<open>Reading\<close>

text \<open>
  \<^verbatim>\<open>[decode(row) for row in res.get("data")]\<close>: iterating a value that is no list, string
  or dict is a \<^verbatim>\<open>TypeError\<close>, and the first row that fails to decode ends the
  comprehension. The decoder of a row (the \<^verbatim>\<open>ServiceInfo(...)\<close> and \<^verbatim>\<open>NodeInfo(...)\<close>
  constructor calls, \<^verbatim>\<open>JobInfo.from_db_row\<close> and its like) belongs to the entity classes
  and is a parameter of each reading operation.
\<close>

fun py_iter :: "pyval option \<Rightarrow> exn + pyval list" where
  "py_iter (Some (PList xs)) = Inr xs"
| "py_iter (Some (PDict kvs)) = Inr (map (\<lambda>kv. PStr (fst kv)) kvs)"
| "py_iter (Some (PStr s)) = Inr (map (\<lambda>c. PStr [c]) s)"
| "py_iter v = Inl TypeError"

fun decode_rows :: "(pyval \<Rightarrow> exn + 'a) \<Rightarrow> pyval list \<Rightarrow> exn + 'a list" where
  "decode_rows dec [] = Inr []"
| "decode_rows dec (x # xs) =
     (case dec x of
        Inl e \<Rightarrow> Inl e
      | Inr y \<Rightarrow> (case decode_rows dec xs of Inl e \<Rightarrow> Inl e | Inr ys \<Rightarrow> Inr (y # ys)))"

definition comprehension :: "(pyval \<Rightarrow> exn + 'a) \<Rightarrow> pyval option \<Rightarrow> exn + 'a list" where
  "comprehension dec v = (case py_iter v of Inl e \<Rightarrow> Inl e | Inr xs \<Rightarrow> decode_rows dec xs)"

text \<open>\<^verbatim>\<open>len(x)\<close>\<close>

fun py_len :: "pyval option \<Rightarrow> exn + nat" where
  "py_len (Some (PList xs)) = Inr (length xs)"
| "py_len (Some (PDict kvs)) = Inr (length kvs)"
| "py_len (Some (PStr s)) = Inr (length s)"
| "py_len v = Inl TypeError"

definition get_active_services :: "(pyval \<Rightarrow> exn + 'a) \<Rightarrow> dal \<Rightarrow> world \<Rightarrow> 'a list outcome" where
  "get_active_services from_db_row d w =
     (case client_execute
             (Select SERVICES_TABLE [''name'', ''type'', ''namespace'', ''classification'', ''config'',
                    ''ready_pods'', ''total_pods'']
                   [(''account_id'', ''eq'', PStr (account_id d)),
                    (''cluster'', ''eq'', PStr (cluster d)),
                    (''deleted'', ''eq'', PBool False)] None) w of
        (Inl e, w1) \<Rightarrow> (Inl e, d, w1)
      | (Inr res, w1) \<Rightarrow>
          if \<not> py_in (res ''status_code'') [200] then
            handle_then_raise (Exception ''Failed to get existing services (supabase) error: '' (res ''data'')) d
              (logging ERROR ''Failed to get existing services (supabase) error: {}'' w1)
          else (comprehension from_db_row (res ''data''), d, w1))"

definition has_cluster_findings :: "dal \<Rightarrow> world \<Rightarrow> bool outcome" where
  "has_cluster_findings d w =
     (case client_execute
             (Select ISSUES_TABLE [''*'']
                   [(''account_id'', ''eq'', PStr (account_id d)),
                    (''cluster'', ''eq'', PStr (cluster d))] (Some 1)) w of
        (Inl e, w1) \<Rightarrow> (Inl e, d, w1)
      | (Inr res, w1) \<Rightarrow>
          if \<not> py_in (res ''status_code'') [200] then
            handle_then_raise (Exception ''Failed to check cluster issues: '' (res ''data'')) d
              (logging ERROR ''Failed to check cluster issues: {}'' w1)
          else
            (case py_len (res ''data'') of
               Inl e \<Rightarrow> (Inl e, d, w1)
             | Inr n \<Rightarrow> (Inr (n > 0), d, w1)))"

definition get_active_nodes :: "(pyval \<Rightarrow> exn + 'a) \<Rightarrow> dal \<Rightarrow> world \<Rightarrow> 'a list outcome" where
  "get_active_nodes from_db_row d w =
     (case client_execute
             (Select NODES_TABLE [''*'']
                   [(''account_id'', ''eq'', PStr (account_id d)),
                    (''cluster_id'', ''eq'', PStr (cluster d)),
                    (''deleted'', ''eq'', PBool False)] None) w of
        (Inl e, w1) \<Rightarrow> (Inl e, d, w1)
      | (Inr res, w1) \<Rightarrow>
          if \<not> py_in (res ''status_code'') [200] then
            handle_then_raise (Exception ''Failed to get existing nodes (supabase) error: '' (res ''data'')) d
              (logging ERROR ''Failed to get existing nodes (supabase) error: {}'' w1)
          else (comprehension from_db_row (res ''data''), d, w1))"

definition get_active_jobs :: "(pyval \<Rightarrow> exn + 'a) \<Rightarrow> dal \<Rightarrow> world \<Rightarrow> 'a list outcome" where
  "get_active_jobs from_db_row d w =
     (case client_execute
             (Select JOBS_TABLE [''*'']
                   [(''account_id'', ''eq'', PStr (account_id d)),
                    (''cluster_id'', ''eq'', PStr (cluster d)),
                    (''deleted'', ''eq'', PBool False)] None) w of
        (Inl e, w1) \<Rightarrow> (Inl e, d, w1)
      | (Inr res, w1) \<Rightarrow>
          if \<not> py_in (res ''status_code'') [200] then
            handle_then_raise (Exception ''Failed to get existing jobs (supabase) error: '' (res ''data'')) d
              (logging ERROR ''Failed to get existing jobs (supabase) error: {}'' w1)
          else (comprehension from_db_row (res ''data''), d, w1))"

definition get_active_helm_release :: "(pyval \<Rightarrow> exn + 'a) \<Rightarrow> dal \<Rightarrow> world \<Rightarrow> 'a list outcome" where
  "get_active_helm_release from_db_row d w =
     (case client_execute
             (Select HELM_RELEASES_TABLE [''*'']
                   [(''account_id'', ''eq'', PStr (account_id d)),
                    (''cluster_id'', ''eq'', PStr (cluster d)),
                    (''deleted'', ''eq'', PBool False)] None) w of
        (Inl e, w1) \<Rightarrow> (Inl e, d, w1)
      | (Inr res, w1) \<Rightarrow>
          if \<not> py_in (res ''status_code'') [200] then
            handle_then_raise (Exception ''Failed to get existing helm releases (supabase) error: '' (res ''data'')) d
              (logging ERROR ''Failed to get existing helm releases (supabase) error: {}'' w1)
          else (comprehension from_db_row (res ''data''), d, w1))"

definition get_active_namespaces :: "(pyval \<Rightarrow> exn + 'a) \<Rightarrow> dal \<Rightarrow> world \<Rightarrow> 'a list outcome" where
  "get_active_namespaces from_db_row d w =
     (case client_execute
             (Select NAMESPACES_TABLE [''*'']
                   [(''account_id'', ''eq'', PStr (account_id d)),
                    (''cluster_id'', ''eq'', PStr (cluster d)),
                    (''deleted'', ''eq'', PBool False)] None) w of
        (Inl e, w1) \<Rightarrow> (Inl e, d, w1)
      | (Inr res, w1) \<Rightarrow>
          if \<not> py_in (res ''status_code'') [200] then
            handle_then_raise (Exception ''get active namespaces failed. status: '' (res ''status_code'')) d
              (logging ERROR ''Failed to get existing namespaces (supabase) error: {}'' w1)
          else (comprehension from_db_row (res ''data''), d, w1))"

section \<open>Auth headers\<close>

text \<open>
  \<^verbatim>\<open>
  def _get_auth_headers(self) -> Dict[str, str]:
      auth = getattr(self, "auth", None)
      session = auth.current_session if auth else None
      if session and session["access_token"]:
          access_token = auth.session()["access_token"]
      else:
          access_token = self.supabase_key
      headers = {"apiKey": self.supabase_key, "Authorization": f"Bearer {access_token}"}
      return headers
  \<close>
  \<open>auth\<close> is \<open>None\<close> while the attribute is not set; the session is \<open>None\<close> or a dict,
  here a list of key-value pairs read with \<open>map_of\<close>. \<^verbatim>\<open>auth.session()\<close> of the identity
  client returns \<^verbatim>\<open>current_session\<close>. Subscripting a dict with a key it does not hold
  is a \<^verbatim>\<open>KeyError\<close>. In the f-string a \<^verbatim>\<open>str\<close> stands for itself; how any other value
  prints is the parameter \<open>repr\<close>.
\<close>

record auth_client =
  current_session :: "(string \<times> pyval) list option"

record robusta_client =
  supabase_key :: string
  auth :: "auth_client option"

definition py_format :: "(pyval \<Rightarrow> string) \<Rightarrow> pyval \<Rightarrow> string" where
  "py_format repr v = (case v of PStr s \<Rightarrow> s | _ \<Rightarrow> repr v)"

definition subscript :: "(string \<times> pyval) list \<Rightarrow> string \<Rightarrow> exn + pyval" where
  "subscript kvs k = (case map_of kvs k of None \<Rightarrow> Inl (KeyError k) | Some v \<Rightarrow> Inr v)"

definition get_auth_headers ::
  "(pyval \<Rightarrow> string) \<Rightarrow> robusta_client \<Rightarrow> exn + (string \<rightharpoonup> string)" where
  "get_auth_headers repr self =
     (let session = (case auth self of Some a \<Rightarrow> current_session a | None \<Rightarrow> None);
          access_token =
            (case session of
               None \<Rightarrow> Inr (supabase_key self)
             | Some kvs \<Rightarrow>
                 if kvs = [] then Inr (supabase_key self)
                 else
                   (case subscript kvs ''access_token'' of
                      Inl e \<Rightarrow> Inl e
                    | Inr v \<Rightarrow>
                        if truthy v then
                          (case subscript kvs ''access_token'' of
                             Inl e \<Rightarrow> Inl e
                           | Inr tok \<Rightarrow> Inr (py_format repr tok))
                        else Inr (supabase_key self)))
      in case access_token of
           Inl e \<Rightarrow> Inl e
         | Inr t \<Rightarrow> Inr [''apiKey'' \<mapsto> supabase_key self, ''Authorization'' \<mapsto> ''Bearer '' @ t])"

section \<open>Example worlds and objects\<close>

text \<open>
  A world whose clock reads 1000, 1001, 1002 and then 5000, whose identity service
  accepts every sign-in and whose gateway is unreachable; a freshly built object; and the
  same world with the identity service failing.
\<close>

definition quiet_world :: world where
  "quiet_world =
     \<lparr>SUPABASE_LOGIN_RATE_LIMIT_SEC = 900,
      clock = (\<lambda>n. if n < 3 then 1000 + real n else 5000),
      ticks = 0,
      auth_reply = (\<lambda>n. None),
      execute_reply = (\<lambda>n. Inl (Raised ''ConnectionError'')),
      requests_reply = (\<lambda>n. Inl (Raised ''ConnectionError'')),
      sent = [],
      log_lines = []\<rparr>"

definition fresh_dal :: dal where
  "fresh_dal =
     \<lparr>url = ''https://db.example'', key = ''anon-key'', account_id = ''acct-1'',
      cluster = ''prod'', email = ''bot@example.com'', password = ''pw'',
      sign_in_time = 0, sink_name = ''robusta_ui'', signing_key = ''sk''\<rparr>"

definition auth_down_world :: world where
  "auth_down_world = quiet_world\<lparr>auth_reply := (\<lambda>n. Some (Raised ''AuthError''))\<rparr>"

section \<open>Observing what was sent\<close>

text \<open>
  The requests an operation added to the world, the name of a request (its table or
  function), and two classes of requests: writes to the evidence or issue table, and what
  persisting a scan may send.
\<close>

fun request_name :: "request \<Rightarrow> string" where
  "request_name (Insert t p u) = t"
| "request_name (Select t cols fs l) = t"
| "request_name (Delete t fs) = t"
| "request_name (Rpc f params) = f"
| "request_name (Auth_sign_in e p) = ''auth.sign_in''"

fun writes_issue_or_evidence :: "request \<Rightarrow> bool" where
  "writes_issue_or_evidence (Insert t p u) = (t = EVIDENCE_TABLE \<or> t = ISSUES_TABLE)"
| "writes_issue_or_evidence rq = False"

fun is_scan_request :: "request \<Rightarrow> bool" where
  "is_scan_request (Insert t p u) = (t = SCANS_RESULT_TABLE)"
| "is_scan_request (Rpc f params) = (f = ''insert_scan_meta'')"
| "is_scan_request (Auth_sign_in e p) = True"
| "is_scan_request rq = False"

definition new_requests :: "world \<Rightarrow> world \<Rightarrow> request list" where
  "new_requests w w' = drop (length (sent w)) (sent w')"

text \<open>
  A finding whose only enrichment is a scan with one report block, a stand-in for the
  model conversion, and a world whose gateway answers 201 to \<^verbatim>\<open>.execute()\<close> and 200 with
  an empty body to raw requests.
\<close>

definition scan_block_example :: scan_report_block where
  "scan_block_example =
     \<lparr>scan_id = PStr ''scan-1'', start_time = ''2023-01-01 10:00:00'',
      end_time = ''2023-01-01 10:05:00'', scan_type = PStr ''popeye'', score = PInt 90,
      results = [\<lparr>row_dict = [''content'' \<mapsto> PStr ''x'']\<rparr>]\<rparr>"

definition scan_finding :: finding where
  "scan_finding =
     \<lparr>finding_id = PStr ''f-1'',
      enrichments = [\<lparr>blocks = [ScanReportBlock scan_block_example],
                      annotations = [SCAN \<mapsto> PBool True]\<rparr>]\<rparr>"

definition mc_example :: model_conversion where
  "mc_example =
     \<lparr>to_evidence_json = (\<lambda>a c s k i e. [''account_id'' \<mapsto> PStr a, ''cluster_id'' \<mapsto> PStr c,
                                          ''issue_id'' \<mapsto> i]),
      to_finding_json = (\<lambda>a c f. [''account_id'' \<mapsto> PStr a, ''cluster'' \<mapsto> PStr c,
                                    ''id'' \<mapsto> finding_id f])\<rparr>"

definition scan_ok_world :: world where
  "scan_ok_world =
     quiet_world
       \<lparr>execute_reply := (\<lambda>n. Inr [''data'' \<mapsto> PList [], ''status_code'' \<mapsto> PInt 201]),
        requests_reply := (\<lambda>n. Inr \<lparr>status_code = 200, content = [], json_value = None\<rparr>)\<rparr>"

text \<open>
  Two raw responses (an HTML error page that is no JSON, and a 204 with an empty body), a
  world whose raw requests all get a given response, a client holding a given session,
  and the header dict \<^verbatim>\<open>_get_auth_headers\<close> builds from an API key and a bearer token.
\<close>

definition html_error :: response where
  "html_error = \<lparr>status_code = 500, content = ''<html>Bad Gateway</html>'', json_value = None\<rparr>"

definition no_content :: response where
  "no_content = \<lparr>status_code = 204, content = [], json_value = None\<rparr>"

definition replying :: "response \<Rightarrow> world" where
  "replying r = quiet_world\<lparr>requests_reply := (\<lambda>n. Inr r)\<rparr>"

definition client_with :: "(string \<times> pyval) list option \<Rightarrow> robusta_client" where
  "client_with session =
     \<lparr>supabase_key = ''anon-key'', auth = Some \<lparr>current_session = session\<rparr>\<rparr>"

definition headers :: "string \<Rightarrow> string \<Rightarrow> (string \<rightharpoonup> string)" where
  "headers api_key token = [''apiKey'' \<mapsto> api_key, ''Authorization'' \<mapsto> ''Bearer '' @ token]"

section \<open>Tenant scope of a request\<close>

text \<open>
  \<open>gate_open\<close> is the condition of \<^verbatim>\<open>sign_in\<close>'s \<^verbatim>\<open>if\<close>. The tenant scope of an object
  is its \<open>account_id\<close> and \<open>cluster\<close>. The services and issues tables call the cluster
  column \<open>cluster\<close>, the other tables \<open>cluster_id\<close>; the RPC functions take
  \<open>_account_id\<close> and \<open>_cluster\<close> or \<open>_cluster_id\<close>. A row is in scope when both columns
  hold the object's values; a filter list is in scope when its conditions on those two
  columns are exactly equality with the object's values; a request is in scope when its
  rows, filters or parameters are. \<open>keeps_scope\<close> says that everything an operation sent
  is in scope and that it left the object's scope as it was.

  The evidence and issue rows are made by \<^verbatim>\<open>ModelConversion\<close>, which is not part of this
  file. \<open>from_conversion\<close> holds of an insert whose row is what the conversion returns
  for the object's own account and cluster (and, for evidence, one of the finding's
  enrichments); \<open>conversion_in_scope\<close> says of a conversion that it writes the account
  and cluster it is handed into the row. \<open>same_object\<close> relates an object to itself
  with another \<open>sign_in_time\<close>.
\<close>

definition gate_open :: "dal \<Rightarrow> world \<Rightarrow> bool" where
  "gate_open d w = (clock w (ticks w) > sign_in_time d + SUPABASE_LOGIN_RATE_LIMIT_SEC w)"

definition cluster_column :: "string \<Rightarrow> string" where
  "cluster_column t = (if t = SERVICES_TABLE \<or> t = ISSUES_TABLE then ''cluster'' else ''cluster_id'')"

definition row_in_scope :: "dal \<Rightarrow> string \<Rightarrow> pydict \<Rightarrow> bool" where
  "row_in_scope d col r =
     (r ''account_id'' = Some (PStr (account_id d)) \<and> r col = Some (PStr (cluster d)))"

definition filters_in_scope :: "dal \<Rightarrow> string \<Rightarrow> filters \<Rightarrow> bool" where
  "filters_in_scope d col fs =
     (filter (\<lambda>f. fst f = ''account_id'' \<or> fst f = col) fs =
        [(''account_id'', ''eq'', PStr (account_id d)), (col, ''eq'', PStr (cluster d))])"

definition params_in_scope :: "dal \<Rightarrow> string \<Rightarrow> pydict \<Rightarrow> bool" where
  "params_in_scope d func_name params =
     (params ''_account_id'' = Some (PStr (account_id d))
      \<and> params (if func_name = UPDATE_CLUSTER_NODE_COUNT then ''_cluster_id'' else ''_cluster'')
          = Some (PStr (cluster d)))"

fun in_tenant_scope :: "dal \<Rightarrow> request \<Rightarrow> bool" where
  "in_tenant_scope d (Insert t (Rows rs) u) = list_all (row_in_scope d (cluster_column t)) rs"
| "in_tenant_scope d (Insert t (Row r) u) = row_in_scope d (cluster_column t) r"
| "in_tenant_scope d (Select t cols fs l) = filters_in_scope d (cluster_column t) fs"
| "in_tenant_scope d (Delete t fs) = filters_in_scope d (cluster_column t) fs"
| "in_tenant_scope d (Rpc f params) = params_in_scope d f params"
| "in_tenant_scope d (Auth_sign_in e p) = True"

definition same_scope :: "dal \<Rightarrow> dal \<Rightarrow> bool" where
  "same_scope d d' = (account_id d' = account_id d \<and> cluster d' = cluster d)"

definition keeps_scope :: "dal \<Rightarrow> world \<Rightarrow> 'a outcome \<Rightarrow> bool" where
  "keeps_scope d w out =
     (list_all (in_tenant_scope d) (new_requests w (snd (snd out)))
      \<and> same_scope d (fst (snd out)))"

definition no_double_quote :: "string \<Rightarrow> bool" where
  "no_double_quote s = (CHR 0x22 \<notin> set s)"

definition same_object :: "dal \<Rightarrow> dal \<Rightarrow> bool" where
  "same_object d d' = (d' = d\<lparr>sign_in_time := sign_in_time d'\<rparr>)"

fun from_conversion :: "model_conversion \<Rightarrow> finding \<Rightarrow> dal \<Rightarrow> request \<Rightarrow> bool" where
  "from_conversion mc f d (Insert t (Row r) u) =
     ((t = EVIDENCE_TABLE
       \<and> list_ex (\<lambda>enrichment.
                    r = to_evidence_json mc (account_id d) (cluster d) (sink_name d)
                          (signing_key d) (finding_id f) enrichment)
            (enrichments f))
      \<or> (t = ISSUES_TABLE \<and> r = to_finding_json mc (account_id d) (cluster d) f))"
| "from_conversion mc f d rq = False"

definition conversion_in_scope :: "model_conversion \<Rightarrow> bool" where
  "conversion_in_scope mc =
     ((\<forall>a c s k i e. to_evidence_json mc a c s k i e ''account_id'' = Some (PStr a)
                      \<and> to_evidence_json mc a c s k i e (cluster_column EVIDENCE_TABLE)
                          = Some (PStr c))
      \<and> (\<forall>a c f. to_finding_json mc a c f ''account_id'' = Some (PStr a)
                    \<and> to_finding_json mc a c f (cluster_column ISSUES_TABLE) = Some (PStr c)))"

fun request_rows :: "request \<Rightarrow> pydict list" where
  "request_rows (Insert t (Rows rs) u) = rs"
| "request_rows (Insert t (Row r) u) = [r]"
| "request_rows rq = []"

text \<open>
  A cluster status record made for another account, a world whose gateway answers 200 to
  \<^verbatim>\<open>.execute()\<close>, a service, a job, and an object whose cluster name holds a double
  quote.
\<close>

definition foreign_status :: cluster_status where
  "foreign_status =
     \<lparr>status_dict = [''account_id'' \<mapsto> PStr ''acct-2'', ''cluster_id'' \<mapsto> PStr ''staging'',
                     ''last_alert_at'' \<mapsto> PStr ''2023-01-01''],
      last_alert_at = PStr ''2023-01-01'', light_actions = []\<rparr>"

definition read_ok_world :: world where
  "read_ok_world =
     quiet_world
       \<lparr>execute_reply := (\<lambda>n. Inr [''data'' \<mapsto> PList [], ''status_code'' \<mapsto> PInt 200])\<rparr>"

definition web_service :: service_info where
  "web_service =
     \<lparr>name = PStr ''web'', service_type = PStr ''Deployment'', namespace = PStr ''default'',
      classification = PStr ''None'', deleted = PBool False, service_config = None,
      total_pods = PInt 3, ready_pods = PInt 3, service_key = PStr ''default/Deployment/web''\<rparr>"

definition batch_job :: job_info where
  "batch_job = \<lparr>job_dict = Map.empty, job_service_key = ''default/Job/batch''\<rparr>"

definition quoted_dal :: dal where
  "quoted_dal = fresh_dal\<lparr>cluster := ''pro'' @ [CHR 0x22] @ ''d''\<rparr>"

section \<open>Observing recovery and failure\<close>

text \<open>
  An operation treats a result as a failure by logging its error line (and then raising
  or carrying on); \<open>error_logged m w out\<close> says that the line \<open>m\<close> is among those
  logged between world \<open>w\<close> and the outcome. \<open>recovered d w\<close> is the object and world
  that \<open>handle_supabase_error\<close> leaves behind, and \<open>recovery_lines\<close> are the lines it
  logs.
\<close>

definition error_logged :: "string \<Rightarrow> world \<Rightarrow> 'a outcome \<Rightarrow> bool" where
  "error_logged msg w out =
     ((ERROR, msg) \<in> set (drop (length (log_lines w)) (log_lines (snd (snd out)))))"

definition recovery_lines :: "dal \<Rightarrow> world \<Rightarrow> (level \<times> string) list" where
  "recovery_lines d w =
     (if gate_open d w
      then (INFO, ''Supabase dal login'') #
           (case auth_reply w (length (sent w)) of
              Some e \<Rightarrow> [(ERROR, ''Failed to sign in on error'')] | None \<Rightarrow> [])
      else [])"

definition recovered :: "dal \<Rightarrow> world \<Rightarrow> dal \<times> world" where
  "recovered d w = snd (handle_supabase_error d w)"

text \<open>
  Only \<open>sign_in\<close> reads the clock, and it does so on every call: an operation has
  attempted recovery exactly when the clock was read between its start and its outcome.
\<close>

definition clock_read :: "world \<Rightarrow> 'a outcome \<Rightarrow> bool" where
  "clock_read w out = (ticks w < ticks (snd (snd out)))"

text \<open>
  A finding with one enrichment that is no scan, a world whose gateway answers its
  \<open>n\<close>-th request with status \<open>code n\<close>, and the world answering 201 first and 200
  afterwards.
\<close>

definition plain_enrichment :: enrichment where
  "plain_enrichment = \<lparr>blocks = [], annotations = Map.empty\<rparr>"

definition plain_finding :: finding where
  "plain_finding = \<lparr>finding_id = PStr ''f-2'', enrichments = [plain_enrichment]\<rparr>"

definition status_replies :: "(nat \<Rightarrow> int) \<Rightarrow> world" where
  "status_replies code =
     quiet_world
       \<lparr>execute_reply := (\<lambda>n. Inr [''data'' \<mapsto> PList [], ''status_code'' \<mapsto> PInt (code n)]),
        requests_reply := (\<lambda>n. Inr \<lparr>status_code = code n, content = [], json_value = None\<rparr>)\<rparr>"

definition created_then_ok :: world where
  "created_then_ok = status_replies (\<lambda>n. if n = 0 then 201 else 200)"

section \<open>The sign-in cooldown\<close>

lemma sign_in_passes:
  assumes "clock w (ticks w) > sign_in_time d + SUPABASE_LOGIN_RATE_LIMIT_SEC w"
  shows "sign_in d w =
    ((case auth_reply w (length (sent w)) of Some x \<Rightarrow> Inl x | None \<Rightarrow> Inr ()),
     d\<lparr>sign_in_time := clock w (Suc (ticks w))\<rparr>,
     w\<lparr>ticks := Suc (Suc (ticks w)),
       log_lines := log_lines w @ [(INFO, ''Supabase dal login'')],
       sent := sent w @ [Auth_sign_in (email d) (password d)]\<rparr>)"
  using assms by (simp add: sign_in_def time_time_def logging_def auth_sign_in_def)

lemma sign_in_limited:
  assumes "\<not> clock w (ticks w) > sign_in_time d + SUPABASE_LOGIN_RATE_LIMIT_SEC w"
  shows "sign_in d w = (Inr (), d, w\<lparr>ticks := Suc (ticks w)\<rparr>)"
  using assms by (simp add: sign_in_def time_time_def)

text \<open>
  The constructor keeps the account and cluster it is given and, with a url and a key that
  are not empty, signs in when the clock is past the rate limit (the stored time starts
  at 0).
\<close>

lemma init_scope:
  assumes "init url' key' account_id' email' password' sink_name' cluster_name signing_key' w
             = (Inr d, w1)"
  shows "account_id d = account_id' \<and> cluster d = cluster_name"
  using assms
  by (auto simp: init_def sign_in_def time_time_def logging_def auth_sign_in_def
      split: if_splits option.splits)

lemma init_signs_in:
  assumes "clock w (ticks w) > SUPABASE_LOGIN_RATE_LIMIT_SEC w"
    and "url' \<noteq> []" and "key' \<noteq> []"
  shows "sent (snd (init url' key' account_id' email' password' sink_name' cluster_name
                      signing_key' w))
           = sent w @ [Auth_sign_in email' password']"
  using assms
  by (simp add: init_def sign_in_def time_time_def logging_def auth_sign_in_def
      split: option.splits)

text \<open>
  C1. A sign-in that passes the gate records its attempt. A second sign-in whose clock
  reading is within \<open>SUPABASE_LOGIN_RATE_LIMIT_SEC\<close> of that recorded attempt sends
  nothing, logs nothing and leaves the object as it is, so the two calls make exactly one
  call to the identity service. A third sign-in whose clock reading is past the cooldown
  makes the second call to the identity service.
\<close>

theorem sign_in_cooldown:
  assumes first: "clock w (ticks w) > sign_in_time d + SUPABASE_LOGIN_RATE_LIMIT_SEC w"
    and s1: "sign_in d w = (r1, d1, w1)"
    and second: "clock w1 (ticks w1) \<le> sign_in_time d1 + SUPABASE_LOGIN_RATE_LIMIT_SEC w1"
    and s2: "sign_in d1 w1 = (r2, d2, w2)"
    and third: "clock w2 (ticks w2) > sign_in_time d2 + SUPABASE_LOGIN_RATE_LIMIT_SEC w2"
    and s3: "sign_in d2 w2 = (r3, d3, w3)"
  shows "auth_calls w1 = auth_calls w + 1
       \<and> r2 = Inr () \<and> d2 = d1 \<and> sent w2 = sent w1 \<and> log_lines w2 = log_lines w1
       \<and> auth_calls w2 = auth_calls w + 1
       \<and> auth_calls w3 = auth_calls w + 2"
proof -
  from s1 sign_in_passes [OF first]
  have w1: "w1 = w\<lparr>ticks := Suc (Suc (ticks w)),
       log_lines := log_lines w @ [(INFO, ''Supabase dal login'')],
       sent := sent w @ [Auth_sign_in (email d) (password d)]\<rparr>"
    by simp
  from second have "\<not> clock w1 (ticks w1) > sign_in_time d1 + SUPABASE_LOGIN_RATE_LIMIT_SEC w1"
    by simp
  from s2 sign_in_limited [OF this]
  have r2: "r2 = Inr ()" and d2: "d2 = d1" and w2: "w2 = w1\<lparr>ticks := Suc (ticks w1)\<rparr>"
    by simp_all
  from s3 sign_in_passes [OF third]
  have w3: "sent w3 = sent w2 @ [Auth_sign_in (email d2) (password d2)]"
    by auto
  have c1: "auth_calls w1 = auth_calls w + 1"
    by (simp add: w1 auth_calls_def)
  have c2: "auth_calls w2 = auth_calls w1"
    by (simp add: w2 auth_calls_def)
  have c3: "auth_calls w3 = auth_calls w2 + 1"
    by (simp add: w3 auth_calls_def)
  show ?thesis
    using r2 d2 c1 c2 c3 by (simp add: w2)
qed

theorem sign_in_cooldown_witness:
  "(case sign_in fresh_dal quiet_world of (r1, d1, w1) \<Rightarrow>
     case sign_in d1 w1 of (r2, d2, w2) \<Rightarrow>
     case sign_in d2 w2 of (r3, d3, w3) \<Rightarrow>
       auth_calls quiet_world = 0 \<and> auth_calls w1 = 1 \<and> r2 = Inr () \<and> d2 = d1
       \<and> sent w2 = sent w1 \<and> auth_calls w2 = 1 \<and> auth_calls w3 = 2
       \<and> clock quiet_world (ticks quiet_world) > sign_in_time fresh_dal + SUPABASE_LOGIN_RATE_LIMIT_SEC quiet_world
       \<and> clock w1 (ticks w1) \<le> sign_in_time d1 + SUPABASE_LOGIN_RATE_LIMIT_SEC w1
       \<and> clock w2 (ticks w2) > sign_in_time d2 + SUPABASE_LOGIN_RATE_LIMIT_SEC w2)"
proof -
  obtain r1 d1 w1 where s1: "sign_in fresh_dal quiet_world = (r1, d1, w1)"
    by (cases "sign_in fresh_dal quiet_world") auto
  obtain r2 d2 w2 where s2: "sign_in d1 w1 = (r2, d2, w2)"
    by (cases "sign_in d1 w1") auto
  obtain r3 d3 w3 where s3: "sign_in d2 w2 = (r3, d3, w3)"
    by (cases "sign_in d2 w2") auto
  have h1: "clock quiet_world (ticks quiet_world) > sign_in_time fresh_dal + SUPABASE_LOGIN_RATE_LIMIT_SEC quiet_world"
    by (simp add: quiet_world_def fresh_dal_def)
  have e1: "d1 = fresh_dal\<lparr>sign_in_time := 1001\<rparr>"
    "w1 = quiet_world\<lparr>ticks := Suc (Suc 0), log_lines := [(INFO, ''Supabase dal login'')],
       sent := [Auth_sign_in ''bot@example.com'' ''pw'']\<rparr>"
    using s1 by (simp_all add: sign_in_def time_time_def logging_def auth_sign_in_def quiet_world_def fresh_dal_def)
  have h2: "clock w1 (ticks w1) \<le> sign_in_time d1 + SUPABASE_LOGIN_RATE_LIMIT_SEC w1"
    by (simp add: e1 quiet_world_def fresh_dal_def)
  have e2: "d2 = d1" "w2 = w1\<lparr>ticks := Suc (Suc (Suc 0))\<rparr>"
    using s2 by (simp_all add: e1 sign_in_def time_time_def logging_def auth_sign_in_def quiet_world_def fresh_dal_def)
  have h3: "clock w2 (ticks w2) > sign_in_time d2 + SUPABASE_LOGIN_RATE_LIMIT_SEC w2"
    by (simp add: e1 e2 quiet_world_def fresh_dal_def)
  have a0: "auth_calls quiet_world = 0"
    by (simp add: auth_calls_def quiet_world_def)
  from sign_in_cooldown [OF h1 s1 h2 s2 h3 s3] a0 h1 h2 h3
  show ?thesis
    unfolding s1 s2 s3 prod.case by simp
qed

text \<open>
  C9. The attempt's timestamp is stored before the identity service is called: when that
  call raises, \<open>sign_in\<close> raises the same exception with the timestamp already
  stored. From then on, in whatever world \<open>w'\<close> the object is asked to sign in again, a
  clock reading within the cooldown of the failed attempt makes the call return without
  calling the identity service and without changing the object, so the same holds for
  the call after it.
\<close>

theorem sign_in_failure_consumes_cooldown:
  assumes gate: "clock w (ticks w) > sign_in_time d + SUPABASE_LOGIN_RATE_LIMIT_SEC w"
    and raises: "auth_reply w (length (sent w)) = Some e"
    and s1: "sign_in d w = (r, d1, w1)"
    and again: "clock w' (ticks w') \<le> clock w (Suc (ticks w)) + SUPABASE_LOGIN_RATE_LIMIT_SEC w'"
  shows "r = Inl e \<and> sign_in_time d1 = clock w (Suc (ticks w))
       \<and> sign_in d1 w' = (Inr (), d1, w'\<lparr>ticks := Suc (ticks w')\<rparr>)"
proof -
  from s1 sign_in_passes [OF gate] raises
  have r: "r = Inl e" and d1: "d1 = d\<lparr>sign_in_time := clock w (Suc (ticks w))\<rparr>"
    and w1: "w1 = w\<lparr>ticks := Suc (Suc (ticks w)),
       log_lines := log_lines w @ [(INFO, ''Supabase dal login'')],
       sent := sent w @ [Auth_sign_in (email d) (password d)]\<rparr>"
    by simp_all
  from again have "\<not> clock w' (ticks w') > sign_in_time d1 + SUPABASE_LOGIN_RATE_LIMIT_SEC w'"
    by (simp add: d1)
  from sign_in_limited [OF this] r d1 show ?thesis
    by simp
qed

theorem sign_in_failure_consumes_cooldown_witness:
  "(case sign_in fresh_dal auth_down_world of (r, d1, w1) \<Rightarrow>
      r = Inl (Raised ''AuthError'') \<and> sign_in_time d1 = 1001 \<and> clock w1 (ticks w1) = 1002
      \<and> sign_in d1 w1 = (Inr (), d1, w1\<lparr>ticks := Suc (ticks w1)\<rparr>)
      \<and> auth_calls w1 = 1 \<and> auth_calls (snd (snd (sign_in d1 w1))) = 1)"
proof -
  obtain r d1 w1 where s1: "sign_in fresh_dal auth_down_world = (r, d1, w1)"
    by (cases "sign_in fresh_dal auth_down_world") auto
  have gate: "clock auth_down_world (ticks auth_down_world)
      > sign_in_time fresh_dal + SUPABASE_LOGIN_RATE_LIMIT_SEC auth_down_world"
    by (simp add: auth_down_world_def quiet_world_def fresh_dal_def)
  have raises: "auth_reply auth_down_world (length (sent auth_down_world)) = Some (Raised ''AuthError'')"
    by (simp add: auth_down_world_def quiet_world_def)
  have w1: "w1 = auth_down_world\<lparr>ticks := Suc (Suc 0),
       log_lines := [(INFO, ''Supabase dal login'')],
       sent := [Auth_sign_in ''bot@example.com'' ''pw'']\<rparr>"
    using s1 by (simp add: sign_in_def time_time_def logging_def auth_sign_in_def auth_down_world_def
        quiet_world_def fresh_dal_def)
  have again: "clock w1 (ticks w1)
      \<le> clock auth_down_world (Suc (ticks auth_down_world)) + SUPABASE_LOGIN_RATE_LIMIT_SEC w1"
    by (simp add: w1 auth_down_world_def quiet_world_def)
  have c: "clock w1 (ticks w1) = 1002" "auth_calls w1 = 1"
    by (simp_all add: w1 auth_down_world_def quiet_world_def auth_calls_def)
  have t: "clock auth_down_world (Suc (ticks auth_down_world)) = 1001"
    by (simp add: auth_down_world_def quiet_world_def)
  from sign_in_failure_consumes_cooldown [OF gate raises s1 again] c t
  show ?thesis
    unfolding s1 prod.case by (simp add: auth_calls_def)
qed

section \<open>Recovery never raises\<close>

lemma handle_supabase_error_returns: "fst (handle_supabase_error d w) = Inr ()"
  by (simp add: handle_supabase_error_def split: prod.splits sum.splits)

text \<open>
  C5. \<open>handle_supabase_error\<close> always returns: whatever exception its sign-in attempt
  raises is caught and logged as an error line. An operation that calls it on its failure
  path therefore goes on to raise its own exception.
\<close>

theorem handle_supabase_error_never_raises:
  "fst (handle_supabase_error d w) = Inr ()
   \<and> (\<forall>e d1 w1. sign_in d w = (Inl e, d1, w1) \<longrightarrow>
          handle_supabase_error d w =
            (Inr (), d1, logging ERROR ''Failed to sign in on error'' w1))
   \<and> (\<forall>ex. fst (handle_then_raise ex d w :: unit outcome) = Inl ex)"
  by (simp add: handle_supabase_error_def handle_then_raise_def split: prod.splits sum.splits)

theorem handle_supabase_error_never_raises_witness:
  "sign_in fresh_dal auth_down_world =
     (Inl (Raised ''AuthError''), fresh_dal\<lparr>sign_in_time := 1001\<rparr>,
      auth_down_world\<lparr>ticks := Suc (Suc 0), log_lines := [(INFO, ''Supabase dal login'')],
        sent := [Auth_sign_in ''bot@example.com'' ''pw'']\<rparr>)
   \<and> fst (handle_supabase_error fresh_dal auth_down_world) = Inr ()
   \<and> log_lines (snd (snd (handle_supabase_error fresh_dal auth_down_world))) =
       [(INFO, ''Supabase dal login''), (ERROR, ''Failed to sign in on error'')]"
proof -
  have s: "sign_in fresh_dal auth_down_world =
     (Inl (Raised ''AuthError''), fresh_dal\<lparr>sign_in_time := 1001\<rparr>,
      auth_down_world\<lparr>ticks := Suc (Suc 0), log_lines := [(INFO, ''Supabase dal login'')],
        sent := [Auth_sign_in ''bot@example.com'' ''pw'']\<rparr>)"
    by (simp add: sign_in_def time_time_def logging_def auth_sign_in_def auth_down_world_def
        quiet_world_def fresh_dal_def)
  from handle_supabase_error_never_raises [of fresh_dal auth_down_world] s
  show ?thesis
    by (simp add: logging_def auth_down_world_def quiet_world_def)
qed

section \<open>What recovery does\<close>

lemma handle_supabase_error_eq:
  "handle_supabase_error d w =
     (Inr (),
      (if gate_open d w then d\<lparr>sign_in_time := clock w (Suc (ticks w))\<rparr> else d),
      (if gate_open d w
       then w\<lparr>ticks := Suc (Suc (ticks w)),
              log_lines := log_lines w @ (INFO, ''Supabase dal login'') #
                (case auth_reply w (length (sent w)) of
                   Some e \<Rightarrow> [(ERROR, ''Failed to sign in on error'')] | None \<Rightarrow> []),
              sent := sent w @ [Auth_sign_in (email d) (password d)]\<rparr>
       else w\<lparr>ticks := Suc (ticks w)\<rparr>))"
  by (simp add: handle_supabase_error_def sign_in_def time_time_def logging_def auth_sign_in_def
      gate_open_def split: option.splits)

lemma handle_then_raise_eq:
  "handle_then_raise ex d w = (Inl ex, snd (handle_supabase_error d w))"
  by (simp add: handle_then_raise_def handle_supabase_error_eq)

lemma handle_supabase_error_sent:
  "sent (snd (snd (handle_supabase_error d w))) =
     sent w @ (if gate_open d w then [Auth_sign_in (email d) (password d)] else [])"
  by (simp add: handle_supabase_error_eq)

lemma handle_supabase_error_scope:
  "same_scope d (fst (snd (handle_supabase_error d w)))"
  by (simp add: handle_supabase_error_eq same_scope_def)

lemma handle_supabase_error_ticks:
  "ticks (snd (snd (handle_supabase_error d w))) =
     (if gate_open d w then Suc (Suc (ticks w)) else Suc (ticks w))"
  by (simp add: handle_supabase_error_eq)

lemmas table_names = SERVICES_TABLE_def NODES_TABLE_def EVIDENCE_TABLE_def ISSUES_TABLE_def
  CLUSTERS_STATUS_TABLE_def JOBS_TABLE_def HELM_RELEASES_TABLE_def NAMESPACES_TABLE_def
  UPDATE_CLUSTER_NODE_COUNT_def SCANS_RESULT_TABLE_def

lemma handle_supabase_error_recovered:
  "handle_supabase_error d w = (Inr (), recovered d w)"
  by (simp add: recovered_def handle_supabase_error_eq)

lemma handle_then_raise_recovered:
  "handle_then_raise ex d w = (Inl ex, recovered d w)"
  by (simp add: recovered_def handle_then_raise_eq)

lemma recovered_log:
  "log_lines (snd (recovered d w)) = log_lines w @ recovery_lines d w"
  by (simp add: recovered_def handle_supabase_error_eq recovery_lines_def)

lemma recovery_lines_error:
  "msg \<noteq> ''Failed to sign in on error'' \<Longrightarrow> (ERROR, msg) \<notin> set (recovery_lines d w)"
  by (simp add: recovery_lines_def split: option.splits)

lemmas classify = client_execute_def handle_then_raise_recovered handle_supabase_error_recovered
  recovered_log recovery_lines_error error_logged_def logging_def py_in_def case_prod_beta

section \<open>Publishing an empty list\<close>

text \<open>
  C7. Each of the five publish operations, given an empty list, returns at once without
  an exception and leaves the object and the world untouched: nothing is sent, nothing
  is logged, the clock is not read.
\<close>

theorem publish_empty_list_sends_nothing:
  "persist_services [] d w = (Inr (), d, w)
   \<and> publish_nodes [] d w = (Inr (), d, w)
   \<and> publish_jobs [] d w = (Inr (), d, w)
   \<and> publish_helm_releases [] d w = (Inr (), d, w)
   \<and> publish_namespaces [] d w = (Inr (), d, w)"
  by (simp add: persist_services_def publish_nodes_def publish_jobs_def
      publish_helm_releases_def publish_namespaces_def)

theorem publish_empty_list_sends_nothing_witness:
  "sent (snd (snd (persist_services [] fresh_dal quiet_world))) = []
   \<and> sent (snd (snd (publish_nodes [] fresh_dal quiet_world))) = []
   \<and> sent (snd (snd (publish_jobs [] fresh_dal quiet_world))) = []
   \<and> sent (snd (snd (publish_helm_releases [] fresh_dal quiet_world))) = []
   \<and> sent (snd (snd (publish_namespaces [] fresh_dal quiet_world))) = []
   \<and> fst (publish_jobs [] fresh_dal quiet_world) = Inr ()"
  using publish_empty_list_sends_nothing [of fresh_dal quiet_world]
  by (simp add: quiet_world_def)

section \<open>Findings made of scans only\<close>

lemma rpc_patch_sent: "sent (snd (rpc_patch f params w)) = sent w @ [Rpc f params]"
  by (simp add: rpc_patch_def requests_send_def logging_def split: sum.splits)

lemma persist_scan_blocks_requests:
  assumes ins: "\<And>rows. P (Insert SCANS_RESULT_TABLE (Rows (map (to_db_scanResult d) rows)) False)"
    and rpc: "\<And>params. params ''_account_id'' = Some (PStr (account_id d)) \<Longrightarrow>
                 params ''_cluster'' = Some (PStr (cluster d)) \<Longrightarrow>
                 P (Rpc ''insert_scan_meta'' params)"
    and auth: "\<And>e p. P (Auth_sign_in e p)"
  shows "\<exists>xs. sent (snd (snd (persist_scan_blocks bs d w))) = sent w @ xs \<and> list_all P xs"
  using assms
proof (induction bs d w rule: persist_scan_blocks.induct)
  case (1 d w)
  then show ?case by simp
next
  case (2 bs d w)
  then show ?case by simp
next
  case (3 b bs d w)
  let ?ins = "Insert SCANS_RESULT_TABLE (Rows (map (to_db_scanResult d) (results b))) False"
  let ?params = "[''_account_id'' \<mapsto> PStr (account_id d),
                     ''_cluster'' \<mapsto> PStr (cluster d),
                     ''_scan_id'' \<mapsto> scan_id b,
                     ''_scan_start'' \<mapsto> PStr (start_time b),
                     ''_scan_end'' \<mapsto> PStr (end_time b),
                     ''_type'' \<mapsto> scan_type b,
                     ''_grade'' \<mapsto> score b]"
  let ?w1 = "w\<lparr>sent := sent w @ [?ins]\<rparr>"
  have ce: "client_execute ?ins w = (execute_reply w (length (sent w)), ?w1)"
    by (simp add: client_execute_def)
  have p_ins: "P ?ins"
    by (rule "3.prems")
  have p_rpc: "P (Rpc ''insert_scan_meta'' ?params)"
    by (rule "3.prems") simp_all
  have p_auth: "\<And>e p. P (Auth_sign_in e p)"
    using "3.prems" by blast
  show ?case
  proof (cases "execute_reply w (length (sent w))")
    case (Inl e)
    with ce p_ins show ?thesis by simp
  next
    case (Inr res)
    note res = this
    show ?thesis
    proof (cases "py_in (res ''status_code'') [200, 201]")
      case False
      with ce res p_ins p_auth show ?thesis
        by (simp add: handle_then_raise_eq handle_supabase_error_eq logging_def)
    next
      case True
      obtain r2 w2 where e2: "rpc_patch ''insert_scan_meta'' ?params ?w1 = (r2, w2)"
        by (cases "rpc_patch ''insert_scan_meta'' ?params ?w1") auto
      with rpc_patch_sent [of "''insert_scan_meta''" ?params ?w1]
      have s2: "sent w2 = sent w @ [?ins, Rpc ''insert_scan_meta'' ?params]"
        by simp
      show ?thesis
      proof (cases r2)
        case (Inl e)
        with True ce res e2 s2 p_ins p_rpc show ?thesis by simp
      next
        case (Inr res2)
        note res2 = this
        show ?thesis
        proof (cases "py_in (res2 ''status_code'') [200, 201, 204]")
          case False
          with True ce res e2 res2 s2 p_ins p_rpc p_auth show ?thesis
            by (simp add: handle_then_raise_eq handle_supabase_error_eq logging_def)
        next
          case True2: True
          from True True2 have n1: "\<not> \<not> py_in (res ''status_code'') [200, 201]"
            and n2: "\<not> \<not> py_in (res2 ''status_code'') [200, 201, 204]"
            by simp_all
          from "3.IH" [OF ce [symmetric] res n1 e2 [symmetric] res2 n2 "3.prems"]
          obtain xs where "sent (snd (snd (persist_scan_blocks bs d w2))) = sent w2 @ xs"
            "list_all P xs"
            by auto
          with True True2 ce res e2 res2 s2 p_ins p_rpc show ?thesis
            by simp
        qed
      qed
    qed
  qed
qed

lemma persist_scans_sent:
  "\<exists>xs. sent (snd (snd (persist_scans scans d w))) = sent w @ xs \<and> list_all is_scan_request xs"
proof (induction scans arbitrary: d w)
  case Nil
  then show ?case by simp
next
  case (Cons scan scans)
  obtain r d1 w1 where e: "persist_scan scan d w = (r, d1, w1)"
    by (cases "persist_scan scan d w") auto
  have "\<exists>xs. sent (snd (snd (persist_scan_blocks (blocks scan) d w))) = sent w @ xs
      \<and> list_all is_scan_request xs"
    by (rule persist_scan_blocks_requests) simp_all
  with e obtain xs where xs: "sent w1 = sent w @ xs" "list_all is_scan_request xs"
    by (auto simp: persist_scan_def)
  show ?case
  proof (cases r)
    case (Inl x)
    with e xs show ?thesis by simp
  next
    case (Inr u)
    from Cons.IH [of d1 w1]
    obtain ys where "sent (snd (snd (persist_scans scans d1 w1))) = sent w1 @ ys"
      "list_all is_scan_request ys"
      by auto
    with Inr e xs show ?thesis by simp
  qed
qed

lemma scan_request_not_issue_or_evidence:
  "list_all is_scan_request xs \<Longrightarrow> \<not> list_ex writes_issue_or_evidence xs"
proof (induction xs)
  case Nil
  then show ?case by simp
next
  case (Cons x xs)
  then show ?case
    by (cases x) (simp_all add: SCANS_RESULT_TABLE_def EVIDENCE_TABLE_def ISSUES_TABLE_def)
qed

text \<open>
  C8. For a finding with at least one enrichment, all of them flagged as scans,
  \<open>persist_finding\<close> does exactly what persisting its scans does: it returns when they
  all succeeded (and raises what the failing one raised otherwise), and in no case sends
  an insert to the evidence table or to the issue table.
\<close>

theorem persist_finding_only_scans:
  assumes some: "enrichments f \<noteq> []"
    and all_scans: "\<forall>enrich \<in> set (enrichments f). is_scan enrich"
  shows "persist_finding mc f d w = persist_scans (enrichments f) d w
       \<and> \<not> list_ex writes_issue_or_evidence
             (new_requests w (snd (snd (persist_finding mc f d w))))"
proof -
  from all_scans have scans: "filter is_scan (enrichments f) = enrichments f"
    and others: "filter (\<lambda>enrich. \<not> is_scan enrich) (enrichments f) = []"
    by (simp_all add: filter_empty_conv)
  have eq: "persist_finding mc f d w = persist_scans (enrichments f) d w"
    using some by (simp add: persist_finding_def Let_def scans others split: prod.splits sum.splits)
  from persist_scans_sent [of "enrichments f" d w]
  obtain xs where "sent (snd (snd (persist_scans (enrichments f) d w))) = sent w @ xs"
    "list_all is_scan_request xs"
    by auto
  then have "\<not> list_ex writes_issue_or_evidence
      (new_requests w (snd (snd (persist_scans (enrichments f) d w))))"
    by (simp add: new_requests_def scan_request_not_issue_or_evidence)
  with eq show ?thesis by simp
qed

theorem persist_finding_only_scans_witness:
  "enrichments scan_finding \<noteq> []
   \<and> list_all is_scan (enrichments scan_finding)
   \<and> fst (persist_finding mc_example scan_finding fresh_dal scan_ok_world) = Inr ()
   \<and> map request_name (sent (snd (snd (persist_finding mc_example scan_finding fresh_dal scan_ok_world))))
       = [''ScansResults'', ''insert_scan_meta'']"
proof -
  have some: "enrichments scan_finding \<noteq> []"
    by (simp add: scan_finding_def)
  have all_scans: "\<forall>enrich \<in> set (enrichments scan_finding). is_scan enrich"
    by (simp add: scan_finding_def is_scan_def)
  have run: "persist_scans (enrichments scan_finding) fresh_dal scan_ok_world =
      (Inr (), fresh_dal,
       scan_ok_world\<lparr>sent :=
         [Insert SCANS_RESULT_TABLE
            (Rows (map (to_db_scanResult fresh_dal) (results scan_block_example))) False,
          Rpc ''insert_scan_meta''
            [''_account_id'' \<mapsto> PStr (account_id fresh_dal),
             ''_cluster'' \<mapsto> PStr (cluster fresh_dal),
             ''_scan_id'' \<mapsto> scan_id scan_block_example,
             ''_scan_start'' \<mapsto> PStr (start_time scan_block_example),
             ''_scan_end'' \<mapsto> PStr (end_time scan_block_example),
             ''_type'' \<mapsto> scan_type scan_block_example,
             ''_grade'' \<mapsto> score scan_block_example]]\<rparr>)"
    by (simp add: scan_finding_def persist_scan_def client_execute_def rpc_patch_def
        requests_send_def scan_ok_world_def quiet_world_def py_in_def)
  from persist_finding_only_scans [OF some all_scans, of mc_example fresh_dal scan_ok_world] some all_scans
  show ?thesis
    by (simp add: run SCANS_RESULT_TABLE_def list_all_iff)
qed

section \<open>Response normalisation\<close>

text \<open>
  C3, as stated, fails on the code: the dict the patches return has no \<open>parse_failure\<close>
  entry. For a 500 response whose body is an HTML page, both patches return a dict in
  which \<open>parse_failure\<close> is absent, so it is not recorded as true.
\<close>

theorem parse_failure_not_recorded:
  "json_value html_error = None
   \<and> \<not> isl (fst (delete_patch JOBS_TABLE [] (replying html_error)))
   \<and> projr (fst (delete_patch JOBS_TABLE [] (replying html_error))) ''parse_failure'' = None
   \<and> projr (fst (delete_patch JOBS_TABLE [] (replying html_error))) ''parse_failure''
        \<noteq> Some (PBool True)
   \<and> \<not> isl (fst (rpc_patch UPDATE_CLUSTER_NODE_COUNT Map.empty (replying html_error)))
   \<and> projr (fst (rpc_patch UPDATE_CLUSTER_NODE_COUNT Map.empty (replying html_error)))
        ''parse_failure'' \<noteq> Some (PBool True)"
  by (simp add: delete_patch_def rpc_patch_def requests_send_def response_json_def
      replying_def quiet_world_def html_error_def)

text \<open>
  C3, amended. Whenever the transport hands back a response, neither patch raises. The
  result is the dict of \<open>data\<close> and \<open>status_code\<close> and nothing else; \<open>status_code\<close> is
  the HTTP status whether or not the body parsed; \<open>data\<close> is the parsed body, and
  otherwise stays at its initial value (the empty string for the delete path, the empty
  dict for the RPC path). The delete path always tries to parse and logs a debug line
  when that fails, also for an empty body; the RPC path does not parse an empty body.
\<close>

theorem patches_normalise_every_response:
  assumes "requests_reply w (length (sent w)) = Inr r"
  shows "delete_patch table fs w =
           (Inr [''data'' \<mapsto> (case json_value r of None \<Rightarrow> PStr [] | Some v \<Rightarrow> v),
                 ''status_code'' \<mapsto> PInt (status_code r)],
            (if json_value r = None
             then logging DEBUG ''Failed to parse delete response data''
             else (\<lambda>w'. w')) (w\<lparr>sent := sent w @ [Delete table (strip_query fs)]\<rparr>))
       \<and> rpc_patch func_name params w =
           (Inr [''data'' \<mapsto> (if content r = [] then PDict []
                               else case json_value r of None \<Rightarrow> PDict [] | Some v \<Rightarrow> v),
                 ''status_code'' \<mapsto> PInt (status_code r)],
            (if content r \<noteq> [] \<and> json_value r = None
             then logging DEBUG ''Failed to parse delete response data''
             else (\<lambda>w'. w')) (w\<lparr>sent := sent w @ [Rpc func_name params]\<rparr>))"
  using assms
  by (simp add: delete_patch_def rpc_patch_def requests_send_def response_json_def
      split: option.splits)

theorem patches_normalise_every_response_witness:
  "requests_reply (replying no_content) (length (sent (replying no_content))) = Inr no_content
   \<and> fst (delete_patch JOBS_TABLE [] (replying no_content)) =
       Inr [''data'' \<mapsto> PStr [], ''status_code'' \<mapsto> PInt 204]
   \<and> fst (rpc_patch UPDATE_CLUSTER_NODE_COUNT Map.empty (replying no_content)) =
       Inr [''data'' \<mapsto> PDict [], ''status_code'' \<mapsto> PInt 204]
   \<and> log_lines (snd (delete_patch JOBS_TABLE [] (replying no_content))) =
       [(DEBUG, ''Failed to parse delete response data'')]
   \<and> log_lines (snd (rpc_patch UPDATE_CLUSTER_NODE_COUNT Map.empty (replying no_content))) = []"
proof -
  have h: "requests_reply (replying no_content) (length (sent (replying no_content))) = Inr no_content"
    by (simp add: replying_def quiet_world_def)
  from patches_normalise_every_response [OF h, of JOBS_TABLE "[]" UPDATE_CLUSTER_NODE_COUNT Map.empty] h
  show ?thesis
    by (simp add: no_content_def logging_def replying_def quiet_world_def)
qed

section \<open>Auth headers\<close>

text \<open>
  C10, as stated, fails on the code: building the headers is not total. A session dict
  that is not empty and has no \<open>access_token\<close> key makes the subscript
  \<^verbatim>\<open>session["access_token"]\<close> raise \<^verbatim>\<open>KeyError\<close>.
\<close>

theorem get_auth_headers_missing_token_key:
  "get_auth_headers (\<lambda>v. []) (client_with (Some [(''user'', PStr ''bot@example.com'')]))
     = Inl (KeyError ''access_token'')"
  by (simp add: get_auth_headers_def client_with_def subscript_def)

text \<open>
  C10, amended. With no auth client, no current session, an empty session, or a session
  whose \<open>access_token\<close> entry is empty or \<open>None\<close>, the headers are built with the
  static API key as bearer token; with a session whose \<open>access_token\<close> entry is
  non-empty, they are built with that token. In all these cases the call returns and the
  \<open>Authorization\<close> header is present.
\<close>

theorem get_auth_headers_fallback:
  "(auth self = None \<longrightarrow>
      get_auth_headers repr self = Inr (headers (supabase_key self) (supabase_key self)))
   \<and> (\<forall>a. auth self = Some a \<and> (current_session a = None \<or> current_session a = Some []) \<longrightarrow>
      get_auth_headers repr self = Inr (headers (supabase_key self) (supabase_key self)))
   \<and> (\<forall>a kvs v. auth self = Some a \<and> current_session a = Some kvs
          \<and> map_of kvs ''access_token'' = Some v \<and> \<not> truthy v \<longrightarrow>
      get_auth_headers repr self = Inr (headers (supabase_key self) (supabase_key self)))
   \<and> (\<forall>a kvs v. auth self = Some a \<and> current_session a = Some kvs
          \<and> map_of kvs ''access_token'' = Some v \<and> truthy v \<longrightarrow>
      get_auth_headers repr self = Inr (headers (supabase_key self) (py_format repr v)))"
  by (auto simp: get_auth_headers_def subscript_def headers_def)

theorem get_auth_headers_fallback_witness:
  "get_auth_headers (\<lambda>v. []) \<lparr>supabase_key = ''anon-key'', auth = None\<rparr>
     = Inr (headers ''anon-key'' ''anon-key'')
   \<and> get_auth_headers (\<lambda>v. []) (client_with None) = Inr (headers ''anon-key'' ''anon-key'')
   \<and> get_auth_headers (\<lambda>v. []) (client_with (Some [])) = Inr (headers ''anon-key'' ''anon-key'')
   \<and> get_auth_headers (\<lambda>v. []) (client_with (Some [(''access_token'', PNone)]))
       = Inr (headers ''anon-key'' ''anon-key'')
   \<and> get_auth_headers (\<lambda>v. []) (client_with (Some [(''access_token'', PStr [])]))
       = Inr (headers ''anon-key'' ''anon-key'')
   \<and> get_auth_headers (\<lambda>v. []) (client_with (Some [(''access_token'', PStr ''jwt'')]))
       = Inr (headers ''anon-key'' ''jwt'')
   \<and> headers ''anon-key'' ''jwt'' ''Authorization'' = Some ''Bearer jwt''"
  using get_auth_headers_fallback [of "\<lparr>supabase_key = ''anon-key'', auth = None\<rparr>" "\<lambda>v. []"]
    get_auth_headers_fallback [of "client_with None" "\<lambda>v. []"]
    get_auth_headers_fallback [of "client_with (Some [])" "\<lambda>v. []"]
    get_auth_headers_fallback [of "client_with (Some [(''access_token'', PNone)])" "\<lambda>v. []"]
    get_auth_headers_fallback [of "client_with (Some [(''access_token'', PStr [])])" "\<lambda>v. []"]
    get_auth_headers_fallback [of "client_with (Some [(''access_token'', PStr ''jwt'')])" "\<lambda>v. []"]
  by (simp add: client_with_def py_format_def headers_def)

section \<open>Tenant scope\<close>

lemma row_in_scope_same: "same_scope d d' \<Longrightarrow> row_in_scope d' = row_in_scope d"
  by (simp add: fun_eq_iff same_scope_def row_in_scope_def)

lemma in_tenant_scope_same:
  "same_scope d d' \<Longrightarrow> in_tenant_scope d' rq = in_tenant_scope d rq"
  by (cases "(d, rq)" rule: in_tenant_scope.cases)
    (simp_all add: row_in_scope_same, simp_all add: same_scope_def filters_in_scope_def params_in_scope_def)

lemma to_service_scope: "row_in_scope d ''cluster'' (to_service d s)"
  by (simp add: row_in_scope_def to_service_def)

lemma to_db_scope:
  "row_in_scope d ''cluster_id'' (to_db_node d n)"
  "row_in_scope d ''cluster_id'' (to_db_job d j)"
  "row_in_scope d ''cluster_id'' (to_db_helm_release d h)"
  "row_in_scope d ''cluster_id'' (to_db_namespace d ns)"
  "row_in_scope d ''cluster_id'' (to_db_scanResult d sr)"
  by (simp_all add: row_in_scope_def to_db_node_def to_db_job_def to_db_helm_release_def
      to_db_namespace_def to_db_scanResult_def)

lemma persist_services_scope:
  "list_all (in_tenant_scope d) (new_requests w (snd (snd (persist_services ss d w))))
   \<and> same_scope d (fst (snd (persist_services ss d w)))"
  by (simp add: persist_services_def client_execute_def handle_then_raise_eq
      handle_supabase_error_eq new_requests_def logging_def same_scope_def cluster_column_def
      list_all_iff to_service_scope split: sum.splits)

lemma publish_nodes_scope:
  "list_all (in_tenant_scope d) (new_requests w (snd (snd (publish_nodes ns d w))))
   \<and> same_scope d (fst (snd (publish_nodes ns d w)))"
  by (simp add: publish_nodes_def client_execute_def handle_then_raise_eq
      handle_supabase_error_eq new_requests_def logging_def same_scope_def cluster_column_def
      list_all_iff to_db_scope table_names filters_in_scope_def  split: sum.splits)

lemma publish_jobs_scope:
  "list_all (in_tenant_scope d) (new_requests w (snd (snd (publish_jobs js d w))))
   \<and> same_scope d (fst (snd (publish_jobs js d w)))"
  by (simp add: publish_jobs_def client_execute_def handle_then_raise_eq
      handle_supabase_error_eq new_requests_def logging_def same_scope_def cluster_column_def
      list_all_iff to_db_scope table_names filters_in_scope_def  split: sum.splits)

lemma publish_helm_releases_scope:
  "list_all (in_tenant_scope d) (new_requests w (snd (snd (publish_helm_releases hs d w))))
   \<and> same_scope d (fst (snd (publish_helm_releases hs d w)))"
  by (simp add: publish_helm_releases_def client_execute_def handle_then_raise_eq
      handle_supabase_error_eq new_requests_def logging_def same_scope_def cluster_column_def
      list_all_iff to_db_scope table_names filters_in_scope_def  split: sum.splits)

lemma publish_namespaces_scope:
  "list_all (in_tenant_scope d) (new_requests w (snd (snd (publish_namespaces nss d w))))
   \<and> same_scope d (fst (snd (publish_namespaces nss d w)))"
  by (simp add: publish_namespaces_def client_execute_def handle_then_raise_eq
      handle_supabase_error_eq new_requests_def logging_def same_scope_def cluster_column_def
      list_all_iff to_db_scope table_names filters_in_scope_def  split: sum.splits)

lemma get_active_services_scope:
  "list_all (in_tenant_scope d) (new_requests w (snd (snd (get_active_services dec d w))))
   \<and> same_scope d (fst (snd (get_active_services dec d w)))"
  by (simp add: get_active_services_def client_execute_def handle_then_raise_eq
      handle_supabase_error_eq new_requests_def logging_def same_scope_def cluster_column_def
      list_all_iff to_db_scope table_names filters_in_scope_def  split: sum.splits)

lemma get_active_nodes_scope:
  "list_all (in_tenant_scope d) (new_requests w (snd (snd (get_active_nodes dec d w))))
   \<and> same_scope d (fst (snd (get_active_nodes dec d w)))"
  by (simp add: get_active_nodes_def client_execute_def handle_then_raise_eq
      handle_supabase_error_eq new_requests_def logging_def same_scope_def cluster_column_def
      list_all_iff to_db_scope table_names filters_in_scope_def  split: sum.splits)

lemma get_active_jobs_scope:
  "list_all (in_tenant_scope d) (new_requests w (snd (snd (get_active_jobs dec d w))))
   \<and> same_scope d (fst (snd (get_active_jobs dec d w)))"
  by (simp add: get_active_jobs_def client_execute_def handle_then_raise_eq
      handle_supabase_error_eq new_requests_def logging_def same_scope_def cluster_column_def
      list_all_iff to_db_scope table_names filters_in_scope_def  split: sum.splits)

lemma get_active_helm_release_scope:
  "list_all (in_tenant_scope d) (new_requests w (snd (snd (get_active_helm_release dec d w))))
   \<and> same_scope d (fst (snd (get_active_helm_release dec d w)))"
  by (simp add: get_active_helm_release_def client_execute_def handle_then_raise_eq
      handle_supabase_error_eq new_requests_def logging_def same_scope_def cluster_column_def
      list_all_iff to_db_scope table_names filters_in_scope_def  split: sum.splits)

lemma get_active_namespaces_scope:
  "list_all (in_tenant_scope d) (new_requests w (snd (snd (get_active_namespaces dec d w))))
   \<and> same_scope d (fst (snd (get_active_namespaces dec d w)))"
  by (simp add: get_active_namespaces_def client_execute_def handle_then_raise_eq
      handle_supabase_error_eq new_requests_def logging_def same_scope_def cluster_column_def
      list_all_iff to_db_scope table_names filters_in_scope_def  split: sum.splits)

lemma has_cluster_findings_scope:
  "list_all (in_tenant_scope d) (new_requests w (snd (snd (has_cluster_findings d w))))
   \<and> same_scope d (fst (snd (has_cluster_findings d w)))"
  by (simp add: has_cluster_findings_def client_execute_def handle_then_raise_eq
      handle_supabase_error_eq new_requests_def logging_def same_scope_def cluster_column_def
      table_names filters_in_scope_def split: sum.splits)

lemma remove_double_quotes_id: "no_double_quote s \<Longrightarrow> remove_double_quotes s = s"
  by (auto simp: no_double_quote_def remove_double_quotes_def filter_id_conv)

lemma remove_deleted_job_scope:
  assumes "no_double_quote (account_id d)" and "no_double_quote (cluster d)"
  shows "list_all (in_tenant_scope d) (new_requests w (snd (snd (remove_deleted_job j d w))))
   \<and> same_scope d (fst (snd (remove_deleted_job j d w)))"
proof -
  have q: "strip_query
      [(''account_id'', ''eq'', PStr (account_id d)),
       (''cluster_id'', ''eq'', PStr (cluster d)),
       (''service_key'', ''eq'', PStr k)]
    = [(''account_id'', ''eq'', PStr (account_id d)),
       (''cluster_id'', ''eq'', PStr (cluster d)),
       (''service_key'', ''eq'', PStr (remove_double_quotes k))]" for k
    using assms by (simp add: strip_query_def remove_double_quotes_id)
      (simp add: remove_double_quotes_def)
  show ?thesis
    by (simp add: remove_deleted_job_def delete_patch_def q requests_send_def
        handle_then_raise_eq handle_supabase_error_eq new_requests_def logging_def
        same_scope_def cluster_column_def table_names filters_in_scope_def
        split: sum.splits option.splits)
qed

lemma publish_cluster_nodes_scope:
  "list_all (in_tenant_scope d) (new_requests w (snd (snd (publish_cluster_nodes n d w))))
   \<and> same_scope d (fst (snd (publish_cluster_nodes n d w)))"
  by (simp add: publish_cluster_nodes_def rpc_patch_def requests_send_def
      handle_supabase_error_eq new_requests_def logging_def same_scope_def
      params_in_scope_def split: sum.splits)


lemma persist_scan_blocks_same_scope:
  "same_scope d (fst (snd (persist_scan_blocks bs d w)))"
proof (induction bs d w rule: persist_scan_blocks.induct)
  case (1 d w)
  then show ?case by (simp add: same_scope_def)
next
  case (2 bs d w)
  then show ?case by simp
next
  case (3 b bs d w)
  then show ?case
    by (simp add: handle_then_raise_eq handle_supabase_error_eq same_scope_def
        split: sum.splits prod.splits)
qed

lemma persist_scan_scope: "keeps_scope d w (persist_scan enrichment d w)"
proof -
  have "\<exists>xs. sent (snd (snd (persist_scan_blocks (blocks enrichment) d w))) = sent w @ xs
      \<and> list_all (in_tenant_scope d) xs"
    by (rule persist_scan_blocks_requests)
      (simp_all add: list_all_iff to_db_scope cluster_column_def table_names params_in_scope_def)
  then show ?thesis
    by (auto simp: keeps_scope_def persist_scan_def new_requests_def persist_scan_blocks_same_scope)
qed

lemma same_object_refl: "same_object d d"
  by (simp add: same_object_def)

lemma same_object_scope: "same_object d d' \<Longrightarrow> same_scope d d'"
  by (cases d, cases d') (simp add: same_object_def same_scope_def)

lemma same_object_trans: "same_object d d1 \<Longrightarrow> same_object d1 d2 \<Longrightarrow> same_object d d2"
  by (cases d, cases d1, cases d2) (simp add: same_object_def)

lemma from_conversion_same:
  "same_object d d' \<Longrightarrow> from_conversion mc f d' rq = from_conversion mc f d rq"
  by (cases d, cases d', cases "(mc, f, d, rq)" rule: from_conversion.cases)
    (simp_all add: same_object_def)

lemma handle_supabase_error_same_object:
  "same_object d (fst (snd (handle_supabase_error d w)))"
  by (simp add: handle_supabase_error_eq same_object_def)

lemma persist_scan_blocks_same_object:
  "same_object d (fst (snd (persist_scan_blocks bs d w)))"
proof (induction bs d w rule: persist_scan_blocks.induct)
  case (1 d w)
  then show ?case by (simp add: same_object_def)
next
  case (2 bs d w)
  then show ?case by simp
next
  case (3 b bs d w)
  then show ?case
    by (simp add: handle_then_raise_eq handle_supabase_error_eq same_object_def
        split: sum.splits prod.splits)
qed

lemma persist_scans_requests:
  "(\<exists>xs. sent (snd (snd (persist_scans scans d w))) = sent w @ xs
         \<and> list_all (in_tenant_scope d) xs)
   \<and> same_object d (fst (snd (persist_scans scans d w)))"
proof (induction scans arbitrary: d w)
  case Nil
  then show ?case by (simp add: same_object_refl)
next
  case (Cons scan scans)
  obtain r d1 w1 where e: "persist_scan scan d w = (r, d1, w1)"
    by (cases "persist_scan scan d w") auto
  have "\<exists>xs. sent (snd (snd (persist_scan_blocks (blocks scan) d w))) = sent w @ xs
      \<and> list_all (in_tenant_scope d) xs"
    by (rule persist_scan_blocks_requests)
      (simp_all add: list_all_iff to_db_scope cluster_column_def table_names params_in_scope_def)
  with e obtain xs where xs: "sent w1 = sent w @ xs" "list_all (in_tenant_scope d) xs"
    by (auto simp: persist_scan_def)
  from persist_scan_blocks_same_object [of d "blocks scan" w] e
  have so: "same_object d d1"
    by (simp add: persist_scan_def)
  show ?case
  proof (cases r)
    case (Inl x)
    with e xs so show ?thesis by simp
  next
    case (Inr u)
    from Cons.IH [of d1 w1]
    obtain ys where ys: "sent (snd (snd (persist_scans scans d1 w1))) = sent w1 @ ys"
      "list_all (in_tenant_scope d1) ys"
      and so1: "same_object d1 (fst (snd (persist_scans scans d1 w1)))"
      by auto
    from ys(2) so have "list_all (in_tenant_scope d) ys"
      by (simp add: list_all_iff in_tenant_scope_same [OF same_object_scope])
    with Inr e xs ys so so1 show ?thesis
      by (auto intro: same_object_trans)
  qed
qed

lemma persist_evidence_requests:
  assumes "set es \<subseteq> set (enrichments f)"
  shows "(\<exists>xs. sent (snd (snd (persist_evidence mc f es d w))) = sent w @ xs
           \<and> list_all (from_conversion mc f d) xs)
       \<and> fst (snd (persist_evidence mc f es d w)) = d"
  using assms
proof (induction es arbitrary: w)
  case Nil
  then show ?case by simp
next
  case (Cons enrichment rest)
  let ?ins = "Insert EVIDENCE_TABLE
      (Row (to_evidence_json mc (account_id d) (cluster d) (sink_name d) (signing_key d)
              (finding_id f) enrichment)) False"
  let ?w1 = "w\<lparr>sent := sent w @ [?ins]\<rparr>"
  from Cons.prems have here: "from_conversion mc f d ?ins" and sub: "set rest \<subseteq> set (enrichments f)"
    by (auto simp: list_ex_iff)
  show ?case
  proof (cases "execute_reply w (length (sent w))")
    case (Inl e)
    with here show ?thesis
      by (simp add: client_execute_def)
  next
    case (Inr res)
    let ?w2 = "if \<not> py_eq_int (res ''status_code'') 201
      then logging ERROR ''Failed to persist finding {} enrichment {} error: {}'' ?w1 else ?w1"
    from Cons.IH [OF sub, of ?w2]
    obtain xs where "sent (snd (snd (persist_evidence mc f rest d ?w2))) = sent ?w2 @ xs"
      "list_all (from_conversion mc f d) xs"
      and "fst (snd (persist_evidence mc f rest d ?w2)) = d"
      by auto
    with Inr here show ?thesis
      by (simp add: client_execute_def logging_def)
  qed
qed

lemma persist_finding_requests:
  "list_all (\<lambda>rq. in_tenant_scope d rq \<or> from_conversion mc f d rq)
     (new_requests w (snd (snd (persist_finding mc f d w))))
   \<and> same_scope d (fst (snd (persist_finding mc f d w)))"
proof -
  let ?scans = "filter is_scan (enrichments f)"
  let ?plain = "filter (\<lambda>enrich. \<not> is_scan enrich) (enrichments f)"
  let ?P = "\<lambda>rq. in_tenant_scope d rq \<or> from_conversion mc f d rq"
  obtain r1 d1 w1 where e1: "persist_scans ?scans d w = (r1, d1, w1)"
    by (cases "persist_scans ?scans d w") auto
  from persist_scans_requests [of ?scans d w] e1
  obtain xs where xs: "sent w1 = sent w @ xs" "list_all (in_tenant_scope d) xs"
    and so: "same_object d d1"
    by auto
  from xs(2) have pxs: "list_all ?P xs"
    by (simp add: list_all_iff)
  note sc = same_object_scope [OF so]
  show ?thesis
  proof (cases r1)
    case (Inl e)
    with e1 xs pxs sc show ?thesis
      by (simp add: persist_finding_def Let_def new_requests_def)
  next
    case (Inr u)
    note r1 = this
    show ?thesis
    proof (cases "length ?scans > 0 \<and> length ?plain = 0")
      case True
      with e1 r1 xs pxs sc show ?thesis
        by (simp add: persist_finding_def Let_def new_requests_def)
    next
      case False
      obtain r2 d2 w2 where e2: "persist_evidence mc f ?plain d1 w1 = (r2, d2, w2)"
        by (cases "persist_evidence mc f ?plain d1 w1") auto
      have "set ?plain \<subseteq> set (enrichments f)"
        by auto
      from persist_evidence_requests [OF this, of mc d1 w1] e2
      obtain ys where ys: "sent w2 = sent w1 @ ys" "list_all (from_conversion mc f d1) ys"
        and d2: "d2 = d1"
        by auto
      from ys(2) so have pys: "list_all ?P ys"
        by (simp add: list_all_iff from_conversion_same)
      show ?thesis
      proof (cases r2)
        case (Inl e)
        with False e1 r1 e2 xs ys pxs pys sc d2 show ?thesis
          by (simp add: persist_finding_def Let_def new_requests_def)
      next
        case (Inr u2)
        note r2 = this
        let ?ins = "Insert ISSUES_TABLE (Row (to_finding_json mc (account_id d1) (cluster d1) f)) False"
        have "from_conversion mc f d1 ?ins"
          by simp
        then have "from_conversion mc f d ?ins"
          unfolding from_conversion_same [OF so] .
        then have pins: "?P ?ins"
          by (simp del: from_conversion.simps)
        from sc have sc': "account_id d1 = account_id d" "cluster d1 = cluster d"
          by (simp_all add: same_scope_def)
        from False e1 r1 e2 r2 xs ys pxs pys pins sc' d2 show ?thesis
          by (simp add: persist_finding_def Let_def new_requests_def client_execute_def
              handle_supabase_error_eq logging_def same_scope_def split: sum.splits)
      qed
    qed
  qed
qed

lemma conversion_in_scope_request:
  "conversion_in_scope mc \<Longrightarrow> from_conversion mc f d rq \<Longrightarrow> in_tenant_scope d rq"
  by (cases "(mc, f, d, rq)" rule: from_conversion.cases)
    (auto simp: conversion_in_scope_def row_in_scope_def list_ex_iff)

lemma persist_finding_scope:
  assumes "conversion_in_scope mc"
  shows "keeps_scope d w (persist_finding mc f d w)"
proof -
  from persist_finding_requests [of d mc f w]
  have "list_all (\<lambda>rq. in_tenant_scope d rq \<or> from_conversion mc f d rq)
     (new_requests w (snd (snd (persist_finding mc f d w))))"
    and same: "same_scope d (fst (snd (persist_finding mc f d w)))"
    by simp_all
  then have "list_all (in_tenant_scope d) (new_requests w (snd (snd (persist_finding mc f d w))))"
    using conversion_in_scope_request [OF assms] by (auto simp: list_all_iff)
  with same show ?thesis
    by (simp add: keeps_scope_def)
qed

text \<open>
  C6, as stated, fails on the code in two places. \<open>publish_cluster_status\<close> writes the
  row of \<open>to_db_cluster_status\<close>, which adds no tenant field: for a status record made
  for account \<open>acct-2\<close>, an object of account \<open>acct-1\<close> sends a row whose \<open>account_id\<close>
  is \<open>acct-2\<close>. And the raw delete of \<open>remove_deleted_job\<close> loses every double quote of
  its query: an object whose cluster is named \<open>pro"d\<close> sends a delete that filters on
  the cluster \<open>prod\<close>.
\<close>

theorem cluster_status_outside_scope:
  "account_id fresh_dal = ''acct-1''
   \<and> map (\<lambda>r. r ''account_id'')
        (concat (map request_rows
           (new_requests scan_ok_world
              (snd (snd (publish_cluster_status foreign_status fresh_dal scan_ok_world))))))
       = [Some (PStr ''acct-2'')]
   \<and> \<not> list_all (in_tenant_scope fresh_dal)
         (new_requests scan_ok_world
            (snd (snd (publish_cluster_status foreign_status fresh_dal scan_ok_world))))
   \<and> cluster quoted_dal \<noteq> ''prod''
   \<and> new_requests (replying no_content)
        (snd (snd (remove_deleted_job (Some batch_job) quoted_dal (replying no_content))))
       = [Delete ''Jobs''
            [(''account_id'', ''eq'', PStr ''acct-1''), (''cluster_id'', ''eq'', PStr ''prod''),
             (''service_key'', ''eq'', PStr ''default/Job/batch'')]]
   \<and> \<not> list_all (in_tenant_scope quoted_dal)
         (new_requests (replying no_content)
            (snd (snd (remove_deleted_job (Some batch_job) quoted_dal (replying no_content)))))"
proof -
  have a: "map (\<lambda>r. r ''account_id'')
        (concat (map request_rows
           (new_requests scan_ok_world
              (snd (snd (publish_cluster_status foreign_status fresh_dal scan_ok_world))))))
       = [Some (PStr ''acct-2'')]
   \<and> \<not> list_all (in_tenant_scope fresh_dal)
         (new_requests scan_ok_world
            (snd (snd (publish_cluster_status foreign_status fresh_dal scan_ok_world))))"
    by (simp add: publish_cluster_status_def to_db_cluster_status_def client_execute_def
        logging_def new_requests_def foreign_status_def scan_ok_world_def quiet_world_def
        fresh_dal_def py_in_def row_in_scope_def cluster_column_def table_names)
  have b: "new_requests (replying no_content)
        (snd (snd (remove_deleted_job (Some batch_job) quoted_dal (replying no_content))))
       = [Delete ''Jobs''
            [(''account_id'', ''eq'', PStr ''acct-1''), (''cluster_id'', ''eq'', PStr ''prod''),
             (''service_key'', ''eq'', PStr ''default/Job/batch'')]]"
    by (simp add: remove_deleted_job_def delete_patch_def strip_query_def
        remove_double_quotes_def requests_send_def response_json_def logging_def
        new_requests_def batch_job_def quoted_dal_def fresh_dal_def replying_def no_content_def
        quiet_world_def py_in_def table_names)
  have c: "cluster quoted_dal \<noteq> ''prod''" "account_id fresh_dal = ''acct-1''"
    by (simp_all add: quoted_dal_def fresh_dal_def)
  have "\<not> in_tenant_scope quoted_dal
      (Delete ''Jobs''
         [(''account_id'', ''eq'', PStr ''acct-1''), (''cluster_id'', ''eq'', PStr ''prod''),
          (''service_key'', ''eq'', PStr ''default/Job/batch'')])"
    by (simp add: filters_in_scope_def cluster_column_def table_names quoted_dal_def fresh_dal_def)
  with a b c show ?thesis
    by simp
qed

text \<open>
  C6, amended. The rows made by \<open>to_service\<close>, \<open>to_db_node\<close>, \<open>to_db_job\<close>,
  \<open>to_db_helm_release\<close>, \<open>to_db_namespace\<close> and \<open>to_db_scanResult\<close> carry exactly the
  object's account and cluster, whatever the entity held. Every request sent by the five
  publish operations, by \<open>persist_scan\<close> and \<open>publish_cluster_nodes\<close>, and by the six
  reading operations is in the object's tenant scope (rows and RPC parameters carry the
  pair, select filters constrain exactly that pair), and none of them changes the
  object's account or cluster. The same holds of \<open>remove_deleted_job\<close> for an object
  whose account and cluster hold no double quote. Every request of \<open>persist_finding\<close>
  is in scope or is the insert of an evidence or issue row that the model conversion
  made from exactly the object's account and cluster, so all of them are in scope once
  the conversion writes the pair it is handed. \<open>publish_cluster_status\<close> is not among
  them.
\<close>

theorem tenant_scope_of_requests:
  "row_in_scope d ''cluster'' (to_service d s)
   \<and> row_in_scope d ''cluster_id'' (to_db_node d n)
   \<and> row_in_scope d ''cluster_id'' (to_db_job d j)
   \<and> row_in_scope d ''cluster_id'' (to_db_helm_release d h)
   \<and> row_in_scope d ''cluster_id'' (to_db_namespace d ns)
   \<and> row_in_scope d ''cluster_id'' (to_db_scanResult d sr)
   \<and> keeps_scope d w (persist_services services d w)
   \<and> keeps_scope d w (publish_nodes nodes d w)
   \<and> keeps_scope d w (publish_jobs jobs d w)
   \<and> keeps_scope d w (publish_helm_releases helm_releases d w)
   \<and> keeps_scope d w (publish_namespaces namespaces d w)
   \<and> keeps_scope d w (persist_scan enrichment d w)
   \<and> keeps_scope d w (publish_cluster_nodes node_count d w)
   \<and> keeps_scope d w (get_active_services dec1 d w)
   \<and> keeps_scope d w (get_active_nodes dec2 d w)
   \<and> keeps_scope d w (get_active_jobs dec3 d w)
   \<and> keeps_scope d w (get_active_helm_release dec4 d w)
   \<and> keeps_scope d w (get_active_namespaces dec5 d w)
   \<and> keeps_scope d w (has_cluster_findings d w)
   \<and> (no_double_quote (account_id d) \<and> no_double_quote (cluster d) \<longrightarrow>
        keeps_scope d w (remove_deleted_job job d w))
   \<and> list_all (\<lambda>rq. in_tenant_scope d rq \<or> from_conversion mc f d rq)
        (new_requests w (snd (snd (persist_finding mc f d w))))
   \<and> same_scope d (fst (snd (persist_finding mc f d w)))
   \<and> (conversion_in_scope mc \<longrightarrow> keeps_scope d w (persist_finding mc f d w))"
proof -
  have del: "no_double_quote (account_id d) \<and> no_double_quote (cluster d) \<longrightarrow>
        keeps_scope d w (remove_deleted_job job d w)"
    using remove_deleted_job_scope [of d w job] by (simp add: keeps_scope_def)
  have fin: "conversion_in_scope mc \<longrightarrow> keeps_scope d w (persist_finding mc f d w)"
    using persist_finding_scope [of mc d w f] by simp
  show ?thesis
    by (intro conjI to_service_scope to_db_scope del fin
      persist_finding_requests [THEN conjunct1] persist_finding_requests [THEN conjunct2]
      persist_scan_scope
      persist_services_scope [folded keeps_scope_def] publish_nodes_scope [folded keeps_scope_def]
      publish_jobs_scope [folded keeps_scope_def]
      publish_helm_releases_scope [folded keeps_scope_def]
      publish_namespaces_scope [folded keeps_scope_def]
      publish_cluster_nodes_scope [folded keeps_scope_def]
      get_active_services_scope [folded keeps_scope_def]
      get_active_nodes_scope [folded keeps_scope_def]
      get_active_jobs_scope [folded keeps_scope_def]
      get_active_helm_release_scope [folded keeps_scope_def]
      get_active_namespaces_scope [folded keeps_scope_def]
      has_cluster_findings_scope [folded keeps_scope_def])
qed

theorem tenant_scope_of_requests_witness:
  "map (\<lambda>r. (r ''account_id'', r ''cluster''))
        (concat (map request_rows
           (new_requests scan_ok_world
              (snd (snd (persist_services [web_service] fresh_dal scan_ok_world))))))
     = [(Some (PStr ''acct-1''), Some (PStr ''prod''))]
   \<and> new_requests read_ok_world
        (snd (snd (get_active_jobs (\<lambda>v. Inr v :: exn + pyval) fresh_dal read_ok_world)))
     = [Select ''Jobs'' [''*'']
          [(''account_id'', ''eq'', PStr ''acct-1''), (''cluster_id'', ''eq'', PStr ''prod''),
           (''deleted'', ''eq'', PBool False)] None]
   \<and> keeps_scope fresh_dal scan_ok_world (persist_services [web_service] fresh_dal scan_ok_world)
   \<and> keeps_scope fresh_dal read_ok_world
        (get_active_jobs (\<lambda>v. Inr v :: exn + pyval) fresh_dal read_ok_world)
   \<and> no_double_quote (account_id fresh_dal) \<and> no_double_quote (cluster fresh_dal)
   \<and> new_requests (replying no_content)
        (snd (snd (remove_deleted_job (Some batch_job) fresh_dal (replying no_content))))
       = [Delete ''Jobs''
            [(''account_id'', ''eq'', PStr ''acct-1''), (''cluster_id'', ''eq'', PStr ''prod''),
             (''service_key'', ''eq'', PStr ''default/Job/batch'')]]
   \<and> keeps_scope fresh_dal (replying no_content)
        (remove_deleted_job (Some batch_job) fresh_dal (replying no_content))
   \<and> conversion_in_scope mc_example
   \<and> map request_name
        (new_requests created_then_ok
           (snd (snd (persist_finding mc_example plain_finding fresh_dal created_then_ok))))
       = [''Evidence'', ''Issues'', ''auth.sign_in'']
   \<and> keeps_scope fresh_dal created_then_ok
        (persist_finding mc_example plain_finding fresh_dal created_then_ok)"
proof -
  have a: "map (\<lambda>r. (r ''account_id'', r ''cluster''))
        (concat (map request_rows
           (new_requests scan_ok_world
              (snd (snd (persist_services [web_service] fresh_dal scan_ok_world))))))
     = [(Some (PStr ''acct-1''), Some (PStr ''prod''))]"
    by (simp add: persist_services_def client_execute_def new_requests_def to_service_def
        scan_ok_world_def quiet_world_def fresh_dal_def py_in_def)
  have b: "new_requests read_ok_world
        (snd (snd (get_active_jobs (\<lambda>v. Inr v :: exn + pyval) fresh_dal read_ok_world)))
     = [Select ''Jobs'' [''*'']
          [(''account_id'', ''eq'', PStr ''acct-1''), (''cluster_id'', ''eq'', PStr ''prod''),
           (''deleted'', ''eq'', PBool False)] None]"
    by (simp add: get_active_jobs_def client_execute_def new_requests_def handle_then_raise_eq
        handle_supabase_error_eq logging_def gate_open_def
        read_ok_world_def quiet_world_def fresh_dal_def py_in_def table_names)
  have c: "new_requests (replying no_content)
        (snd (snd (remove_deleted_job (Some batch_job) fresh_dal (replying no_content))))
       = [Delete ''Jobs''
            [(''account_id'', ''eq'', PStr ''acct-1''), (''cluster_id'', ''eq'', PStr ''prod''),
             (''service_key'', ''eq'', PStr ''default/Job/batch'')]]"
    by (simp add: remove_deleted_job_def delete_patch_def strip_query_def
        remove_double_quotes_def requests_send_def response_json_def logging_def
        new_requests_def batch_job_def fresh_dal_def replying_def no_content_def
        quiet_world_def py_in_def table_names)
  have e: "map request_name
        (new_requests created_then_ok
           (snd (snd (persist_finding mc_example plain_finding fresh_dal created_then_ok))))
       = [''Evidence'', ''Issues'', ''auth.sign_in'']"
    by (simp add: persist_finding_def plain_finding_def plain_enrichment_def is_scan_def
        client_execute_def handle_supabase_error_eq gate_open_def logging_def new_requests_def
        created_then_ok_def status_replies_def quiet_world_def fresh_dal_def table_names)
  have q: "no_double_quote (account_id fresh_dal)" "no_double_quote (cluster fresh_dal)"
    by (simp_all add: no_double_quote_def fresh_dal_def)
  have m: "conversion_in_scope mc_example"
    by (simp add: conversion_in_scope_def mc_example_def cluster_column_def table_names)
  note inst = tenant_scope_of_requests [where d = fresh_dal and s = web_service
      and n = "\<lparr>node_dict = Map.empty\<rparr>" and j = batch_job
      and h = "\<lparr>helm_release_dict = Map.empty, helm_release_service_key = PNone\<rparr>"
      and ns = "\<lparr>namespace_dict = Map.empty\<rparr>" and sr = "\<lparr>row_dict = Map.empty\<rparr>"
      and services = "[web_service]" and nodes = "[]" and jobs = "[]"
      and helm_releases = "[]" and namespaces = "[]"
      and enrichment = plain_enrichment and node_count = "PInt 1" and job = "Some batch_job"
      and ?dec1.0 = "\<lambda>v. Inr v :: exn + pyval" and ?dec2.0 = "\<lambda>v. Inr v :: exn + pyval"
      and ?dec3.0 = "\<lambda>v. Inr v :: exn + pyval" and ?dec4.0 = "\<lambda>v. Inr v :: exn + pyval"
      and ?dec5.0 = "\<lambda>v. Inr v :: exn + pyval"
      and mc = mc_example and f = plain_finding]
  from inst [where w = scan_ok_world] inst [where w = read_ok_world]
    inst [where w = "replying no_content"] inst [where w = created_then_ok] a b c e q m
  show ?thesis
    by simp
qed

section \<open>Expected status codes\<close>

lemma get_active_services_class:
  assumes "execute_reply w (length (sent w)) = Inr res" and "res ''status_code'' = Some (PInt c)"
  shows "error_logged ''Failed to get existing services (supabase) error: {}'' w (get_active_services dec d w) \<longleftrightarrow> c \<noteq> 200"
  using assms
  by (simp add: get_active_services_def classify)

lemma get_active_nodes_class:
  assumes "execute_reply w (length (sent w)) = Inr res" and "res ''status_code'' = Some (PInt c)"
  shows "error_logged ''Failed to get existing nodes (supabase) error: {}'' w (get_active_nodes dec d w) \<longleftrightarrow> c \<noteq> 200"
  using assms
  by (simp add: get_active_nodes_def classify)

lemma get_active_jobs_class:
  assumes "execute_reply w (length (sent w)) = Inr res" and "res ''status_code'' = Some (PInt c)"
  shows "error_logged ''Failed to get existing jobs (supabase) error: {}'' w (get_active_jobs dec d w) \<longleftrightarrow> c \<noteq> 200"
  using assms
  by (simp add: get_active_jobs_def classify)

lemma get_active_helm_release_class:
  assumes "execute_reply w (length (sent w)) = Inr res" and "res ''status_code'' = Some (PInt c)"
  shows "error_logged ''Failed to get existing helm releases (supabase) error: {}'' w (get_active_helm_release dec d w) \<longleftrightarrow> c \<noteq> 200"
  using assms
  by (simp add: get_active_helm_release_def classify)

lemma get_active_namespaces_class:
  assumes "execute_reply w (length (sent w)) = Inr res" and "res ''status_code'' = Some (PInt c)"
  shows "error_logged ''Failed to get existing namespaces (supabase) error: {}'' w (get_active_namespaces dec d w) \<longleftrightarrow> c \<noteq> 200"
  using assms
  by (simp add: get_active_namespaces_def classify)

lemma has_cluster_findings_class:
  assumes "execute_reply w (length (sent w)) = Inr res" and "res ''status_code'' = Some (PInt c)"
  shows "error_logged ''Failed to check cluster issues: {}'' w (has_cluster_findings d w) \<longleftrightarrow> c \<noteq> 200"
  using assms
  by (simp add: has_cluster_findings_def classify split: sum.splits)

lemma persist_services_class:
  assumes "execute_reply w (length (sent w)) = Inr res" and "res ''status_code'' = Some (PInt c)"
  shows "error_logged ''Failed to persist services {} error: {}'' w (persist_services (x # xs) d w) \<longleftrightarrow> c \<notin> {200, 201}"
  using assms
  by (simp add: persist_services_def classify)

lemma publish_nodes_class:
  assumes "execute_reply w (length (sent w)) = Inr res" and "res ''status_code'' = Some (PInt c)"
  shows "error_logged ''Failed to persist node {} error: {}'' w (publish_nodes (x # xs) d w) \<longleftrightarrow> c \<notin> {200, 201}"
  using assms
  by (simp add: publish_nodes_def classify)

lemma publish_jobs_class:
  assumes "execute_reply w (length (sent w)) = Inr res" and "res ''status_code'' = Some (PInt c)"
  shows "error_logged ''Failed to persist jobs {} error: {}'' w (publish_jobs (x # xs) d w) \<longleftrightarrow> c \<notin> {200, 201}"
  using assms
  by (simp add: publish_jobs_def classify)

lemma publish_helm_releases_class:
  assumes "execute_reply w (length (sent w)) = Inr res" and "res ''status_code'' = Some (PInt c)"
  shows "error_logged ''Failed to persist helm_releases {} error: {}'' w (publish_helm_releases (x # xs) d w) \<longleftrightarrow> c \<notin> {200, 201}"
  using assms
  by (simp add: publish_helm_releases_def classify)

lemma publish_namespaces_class:
  assumes "execute_reply w (length (sent w)) = Inr res" and "res ''status_code'' = Some (PInt c)"
  shows "error_logged ''Failed to persist namespaces {} error: {}'' w (publish_namespaces (x # xs) d w) \<longleftrightarrow> c \<notin> {200, 201}"
  using assms
  by (simp add: publish_namespaces_def classify)

lemma publish_cluster_status_class:
  assumes "execute_reply w (length (sent w)) = Inr res" and "res ''status_code'' = Some (PInt c)"
    and "status_dict cs ''last_alert_at'' \<noteq> None"
  shows "error_logged ''Failed to upsert {} error: {}'' w (publish_cluster_status cs d w)
           \<longleftrightarrow> c \<notin> {200, 201}"
  using assms
  by (auto simp: publish_cluster_status_def to_db_cluster_status_def classify)

lemma remove_deleted_job_class:
  assumes "requests_reply w (length (sent w)) = Inr r" and "status_code r = c"
  shows "error_logged ''Failed to delete job {} error: {}'' w (remove_deleted_job (Some j) d w)
           \<longleftrightarrow> c \<notin> {200, 202, 204}"
  using assms
  by (auto simp: remove_deleted_job_def delete_patch_def requests_send_def response_json_def
      classify split: option.splits)

lemma publish_cluster_nodes_class:
  assumes "requests_reply w (length (sent w)) = Inr r" and "status_code r = c"
  shows "error_logged ''Failed to publish node count {} error: {}'' w
           (publish_cluster_nodes node_count d w) \<longleftrightarrow> c \<notin> {200, 201, 204}"
  using assms
  by (auto simp: publish_cluster_nodes_def rpc_patch_def requests_send_def response_json_def
      classify split: option.splits)

lemma persist_scan_insert_class:
  assumes "execute_reply w (length (sent w)) = Inr res" and "res ''status_code'' = Some (PInt c)"
  shows "error_logged ''Failed to persist scan {} error: {}'' w
           (persist_scan \<lparr>blocks = [ScanReportBlock b], annotations = a\<rparr> d w)
           \<longleftrightarrow> c \<notin> {200, 201}"
  using assms
  by (auto simp: persist_scan_def rpc_patch_def requests_send_def
      response_json_def classify split: option.splits sum.splits)

lemma persist_scan_meta_class:
  assumes "execute_reply w (length (sent w)) = Inr res" and "res ''status_code'' = Some (PInt c)"
    and "requests_reply w (Suc (length (sent w))) = Inr r1" and "status_code r1 = c1"
    and "c \<in> {200, 201}"
  shows "error_logged ''Failed to persist scan meta {} error: {}'' w
           (persist_scan \<lparr>blocks = [ScanReportBlock b], annotations = a\<rparr> d w)
           \<longleftrightarrow> c1 \<notin> {200, 201, 204}"
  using assms
  by (auto simp: persist_scan_def rpc_patch_def requests_send_def
      response_json_def classify split: option.splits sum.splits)

lemma persist_finding_evidence_class:
  assumes "execute_reply w (length (sent w)) = Inr res" and "res ''status_code'' = Some (PInt c)"
    and "enrichments f = [enrich]" and "\<not> is_scan enrich"
  shows "error_logged ''Failed to persist finding {} enrichment {} error: {}'' w
           (persist_finding mc f d w) \<longleftrightarrow> c \<noteq> 201"
  using assms
  by (auto simp: persist_finding_def classify split: sum.splits)

lemma persist_finding_issue_class:
  assumes "execute_reply w (length (sent w)) = Inr res"
    and "execute_reply w (Suc (length (sent w))) = Inr res1"
    and "res1 ''status_code'' = Some (PInt c1)"
    and "enrichments f = [enrich]" and "\<not> is_scan enrich"
  shows "error_logged ''Failed to persist finding {} error: {}'' w
           (persist_finding mc f d w) \<longleftrightarrow> c1 \<noteq> 201"
  using assms
  by (auto simp: persist_finding_def classify split: sum.splits)

text \<open>
  C4, as stated, fails on the code for two kinds of operation. A select accepts 200
  only: \<open>get_active_services\<close> answered with 201 logs its error line and raises. The
  evidence and issue inserts of \<open>persist_finding\<close> accept 201 only: answered with 200,
  both log their error lines.
\<close>

theorem select_and_plain_insert_are_stricter:
  "fst (get_active_services (\<lambda>v. Inr v :: exn + pyval) fresh_dal (status_replies (\<lambda>n. 201)))
     = Inl (Exception ''Failed to get existing services (supabase) error: '' (Some (PList [])))
   \<and> error_logged ''Failed to get existing services (supabase) error: {}''
        (status_replies (\<lambda>n. 201))
        (get_active_services (\<lambda>v. Inr v :: exn + pyval) fresh_dal (status_replies (\<lambda>n. 201)))
   \<and> error_logged ''Failed to persist finding {} enrichment {} error: {}''
        (status_replies (\<lambda>n. 200))
        (persist_finding mc_example plain_finding fresh_dal (status_replies (\<lambda>n. 200)))
   \<and> error_logged ''Failed to persist finding {} error: {}''
        (status_replies (\<lambda>n. 200))
        (persist_finding mc_example plain_finding fresh_dal (status_replies (\<lambda>n. 200)))"
  by (simp add: get_active_services_def persist_finding_def plain_finding_def
      plain_enrichment_def is_scan_def classify status_replies_def quiet_world_def)

text \<open>
  C4, amended. Let the gateway answer an operation's first request with status \<open>c\<close>
  and its second with \<open>c1\<close>. An operation treats a status as a failure by logging its
  error line, and it does so exactly when the status is outside the expected set of that
  call: \<open>{200}\<close> for the five \<open>get_active\<close> selects and \<open>has_cluster_findings\<close>;
  \<open>{200, 201}\<close> for the five upserting publish operations (on a list that is not
  empty), for \<open>publish_cluster_status\<close> (on a record whose dict holds
  \<open>last_alert_at\<close>) and for the scan-result insert; \<open>{201}\<close> for the evidence and issue
  inserts of \<open>persist_finding\<close> (on a finding with one plain enrichment);
  \<open>{200, 202, 204}\<close> for the delete of \<open>remove_deleted_job\<close>; \<open>{200, 201, 204}\<close> for
  the RPC call of \<open>publish_cluster_nodes\<close> and, once the scan-result insert was
  accepted, for the RPC call of the scan metadata.
\<close>

theorem status_classification:
  assumes ex: "execute_reply w (length (sent w)) = Inr res"
    and st: "res ''status_code'' = Some (PInt c)"
    and rq: "requests_reply w (length (sent w)) = Inr r"
    and rs: "status_code r = c"
    and ex1: "execute_reply w (Suc (length (sent w))) = Inr res1"
    and st1: "res1 ''status_code'' = Some (PInt c1)"
    and rq1: "requests_reply w (Suc (length (sent w))) = Inr r1"
    and rs1: "status_code r1 = c1"
    and cs: "status_dict cs ''last_alert_at'' \<noteq> None"
    and f: "enrichments f = [enrich]" "\<not> is_scan enrich"
  shows "(error_logged ''Failed to get existing services (supabase) error: {}'' w
        (get_active_services dec1 d w) \<longleftrightarrow> c \<noteq> 200)
   \<and> (error_logged ''Failed to get existing nodes (supabase) error: {}'' w
        (get_active_nodes dec2 d w) \<longleftrightarrow> c \<noteq> 200)
   \<and> (error_logged ''Failed to get existing jobs (supabase) error: {}'' w
        (get_active_jobs dec3 d w) \<longleftrightarrow> c \<noteq> 200)
   \<and> (error_logged ''Failed to get existing helm releases (supabase) error: {}'' w
        (get_active_helm_release dec4 d w) \<longleftrightarrow> c \<noteq> 200)
   \<and> (error_logged ''Failed to get existing namespaces (supabase) error: {}'' w
        (get_active_namespaces dec5 d w) \<longleftrightarrow> c \<noteq> 200)
   \<and> (error_logged ''Failed to check cluster issues: {}'' w
        (has_cluster_findings d w) \<longleftrightarrow> c \<noteq> 200)
   \<and> (error_logged ''Failed to persist services {} error: {}'' w
        (persist_services (svc # svcs) d w) \<longleftrightarrow> c \<notin> {200, 201})
   \<and> (error_logged ''Failed to persist node {} error: {}'' w
        (publish_nodes (nd # nds) d w) \<longleftrightarrow> c \<notin> {200, 201})
   \<and> (error_logged ''Failed to persist jobs {} error: {}'' w
        (publish_jobs (jb # jbs) d w) \<longleftrightarrow> c \<notin> {200, 201})
   \<and> (error_logged ''Failed to persist helm_releases {} error: {}'' w
        (publish_helm_releases (hr # hrs) d w) \<longleftrightarrow> c \<notin> {200, 201})
   \<and> (error_logged ''Failed to persist namespaces {} error: {}'' w
        (publish_namespaces (nsp # nsps) d w) \<longleftrightarrow> c \<notin> {200, 201})
   \<and> (error_logged ''Failed to upsert {} error: {}'' w
        (publish_cluster_status cs d w) \<longleftrightarrow> c \<notin> {200, 201})
   \<and> (error_logged ''Failed to persist scan {} error: {}'' w
        (persist_scan \<lparr>blocks = [ScanReportBlock b], annotations = a\<rparr> d w) \<longleftrightarrow> c \<notin> {200, 201})
   \<and> (error_logged ''Failed to persist finding {} enrichment {} error: {}'' w
        (persist_finding mc f d w) \<longleftrightarrow> c \<noteq> 201)
   \<and> (error_logged ''Failed to persist finding {} error: {}'' w
        (persist_finding mc f d w) \<longleftrightarrow> c1 \<noteq> 201)
   \<and> (error_logged ''Failed to delete job {} error: {}'' w
        (remove_deleted_job (Some deleted_job) d w) \<longleftrightarrow> c \<notin> {200, 202, 204})
   \<and> (error_logged ''Failed to publish node count {} error: {}'' w
        (publish_cluster_nodes node_count d w) \<longleftrightarrow> c \<notin> {200, 201, 204})
   \<and> (c \<in> {200, 201} \<longrightarrow>
        (error_logged ''Failed to persist scan meta {} error: {}'' w
           (persist_scan \<lparr>blocks = [ScanReportBlock b], annotations = a\<rparr> d w)
         \<longleftrightarrow> c1 \<notin> {200, 201, 204}))"
proof -
  have meta: "c \<in> {200, 201} \<longrightarrow>
        (error_logged ''Failed to persist scan meta {} error: {}'' w
           (persist_scan \<lparr>blocks = [ScanReportBlock b], annotations = a\<rparr> d w)
         \<longleftrightarrow> c1 \<notin> {200, 201, 204})"
    using persist_scan_meta_class [OF ex st rq1 rs1] by blast
  show ?thesis
    by (intro conjI 
      get_active_services_class [OF ex st] 
      get_active_nodes_class [OF ex st] 
      get_active_jobs_class [OF ex st] 
      get_active_helm_release_class [OF ex st] 
      get_active_namespaces_class [OF ex st] 
      has_cluster_findings_class [OF ex st] 
      persist_services_class [OF ex st] 
      publish_nodes_class [OF ex st] 
      publish_jobs_class [OF ex st] 
      publish_helm_releases_class [OF ex st] 
      publish_namespaces_class [OF ex st] 
      publish_cluster_status_class [OF ex st cs] 
      persist_scan_insert_class [OF ex st] 
      persist_finding_evidence_class [OF ex st f] 
      persist_finding_issue_class [OF ex ex1 st1 f] 
      remove_deleted_job_class [OF rq rs] 
      publish_cluster_nodes_class [OF rq rs]
      meta)
qed

theorem status_classification_witness:
  "error_logged ''Failed to get existing services (supabase) error: {}'' created_then_ok
      (get_active_services (\<lambda>v. Inr v :: exn + pyval) fresh_dal created_then_ok)
   \<and> \<not> error_logged ''Failed to persist services {} error: {}'' created_then_ok
        (persist_services [web_service] fresh_dal created_then_ok)
   \<and> error_logged ''Failed to delete job {} error: {}'' created_then_ok
        (remove_deleted_job (Some \<lparr>job_dict = Map.empty, job_service_key = ''default/Job/j''\<rparr>)
           fresh_dal created_then_ok)
   \<and> \<not> error_logged ''Failed to publish node count {} error: {}'' created_then_ok
        (publish_cluster_nodes (PInt 3) fresh_dal created_then_ok)
   \<and> \<not> error_logged ''Failed to persist finding {} enrichment {} error: {}'' created_then_ok
        (persist_finding mc_example plain_finding fresh_dal created_then_ok)
   \<and> error_logged ''Failed to persist finding {} error: {}'' created_then_ok
        (persist_finding mc_example plain_finding fresh_dal created_then_ok)
   \<and> \<not> error_logged ''Failed to persist scan meta {} error: {}'' created_then_ok
        (persist_scan \<lparr>blocks = [ScanReportBlock scan_block_example], annotations = Map.empty\<rparr>
           fresh_dal created_then_ok)"
proof -
  have ex: "execute_reply created_then_ok (length (sent created_then_ok))
      = Inr [''data'' \<mapsto> PList [], ''status_code'' \<mapsto> PInt 201]"
    and rq: "requests_reply created_then_ok (length (sent created_then_ok))
      = Inr \<lparr>status_code = 201, content = [], json_value = None\<rparr>"
    and ex1: "execute_reply created_then_ok (Suc (length (sent created_then_ok)))
      = Inr [''data'' \<mapsto> PList [], ''status_code'' \<mapsto> PInt 200]"
    and rq1: "requests_reply created_then_ok (Suc (length (sent created_then_ok)))
      = Inr \<lparr>status_code = 200, content = [], json_value = None\<rparr>"
    by (simp_all add: created_then_ok_def status_replies_def quiet_world_def)
  have st: "[''data'' \<mapsto> PList [], ''status_code'' \<mapsto> PInt 201] ''status_code'' = Some (PInt 201)"
    and st1: "[''data'' \<mapsto> PList [], ''status_code'' \<mapsto> PInt 200] ''status_code'' = Some (PInt 200)"
    and rs: "status_code \<lparr>status_code = 201, content = [], json_value = None\<rparr> = 201"
    and rs1: "status_code \<lparr>status_code = 200, content = [], json_value = None\<rparr> = 200"
    by simp_all
  have cs: "status_dict foreign_status ''last_alert_at'' \<noteq> None"
    by (simp add: foreign_status_def)
  have f: "enrichments plain_finding = [plain_enrichment]" "\<not> is_scan plain_enrichment"
    by (simp_all add: plain_finding_def plain_enrichment_def is_scan_def)
  from status_classification [OF ex st rq rs ex1 st1 rq1 rs1 cs f,
      where d = fresh_dal and mc = mc_example
        and ?dec1.0 = "\<lambda>v. Inr v :: exn + pyval" and ?dec2.0 = "\<lambda>v. Inr v :: exn + pyval"
        and ?dec3.0 = "\<lambda>v. Inr v :: exn + pyval" and ?dec4.0 = "\<lambda>v. Inr v :: exn + pyval"
        and ?dec5.0 = "\<lambda>v. Inr v :: exn + pyval"
        and svc = web_service and svcs = "[]"
        and nd = "\<lparr>node_dict = Map.empty\<rparr>" and nds = "[]"
        and jb = "\<lparr>job_dict = Map.empty, job_service_key = []\<rparr>" and jbs = "[]"
        and hr = "\<lparr>helm_release_dict = Map.empty, helm_release_service_key = PNone\<rparr>" and hrs = "[]"
        and nsp = "\<lparr>namespace_dict = Map.empty\<rparr>" and nsps = "[]"
        and b = scan_block_example and a = Map.empty
        and deleted_job = "\<lparr>job_dict = Map.empty, job_service_key = ''default/Job/j''\<rparr>"
        and node_count = "PInt 3"]
  show ?thesis
    by simp
qed

section \<open>Recovery on failure\<close>

text \<open>
  Every status check of the file but one is followed by recovery. With the gateway
  answering an operation's first request with status \<open>c\<close> and its second with \<open>c1\<close>,
  the clock is read exactly when a status is outside the expected set; for
  \<open>persist_finding\<close> with one plain enrichment, only the status of the issue insert
  counts, whatever the evidence insert was answered.
\<close>

lemma recovered_ticks:
  "ticks (snd (recovered d w)) = ticks w + (if gate_open d w then 2 else 1)"
  by (simp add: recovered_def handle_supabase_error_eq)

lemmas recovers = client_execute_def handle_then_raise_recovered handle_supabase_error_recovered
  recovered_ticks clock_read_def logging_def py_in_def case_prod_beta

lemma get_active_services_recovers:
  assumes "execute_reply w (length (sent w)) = Inr res" and "res ''status_code'' = Some (PInt c)"
  shows "clock_read w (get_active_services dec d w) \<longleftrightarrow> c \<noteq> 200"
  using assms
  by (simp add: get_active_services_def recovers)

lemma get_active_nodes_recovers:
  assumes "execute_reply w (length (sent w)) = Inr res" and "res ''status_code'' = Some (PInt c)"
  shows "clock_read w (get_active_nodes dec d w) \<longleftrightarrow> c \<noteq> 200"
  using assms
  by (simp add: get_active_nodes_def recovers)

lemma get_active_jobs_recovers:
  assumes "execute_reply w (length (sent w)) = Inr res" and "res ''status_code'' = Some (PInt c)"
  shows "clock_read w (get_active_jobs dec d w) \<longleftrightarrow> c \<noteq> 200"
  using assms
  by (simp add: get_active_jobs_def recovers)

lemma get_active_helm_release_recovers:
  assumes "execute_reply w (length (sent w)) = Inr res" and "res ''status_code'' = Some (PInt c)"
  shows "clock_read w (get_active_helm_release dec d w) \<longleftrightarrow> c \<noteq> 200"
  using assms
  by (simp add: get_active_helm_release_def recovers)

lemma get_active_namespaces_recovers:
  assumes "execute_reply w (length (sent w)) = Inr res" and "res ''status_code'' = Some (PInt c)"
  shows "clock_read w (get_active_namespaces dec d w) \<longleftrightarrow> c \<noteq> 200"
  using assms
  by (simp add: get_active_namespaces_def recovers)

lemma has_cluster_findings_recovers:
  assumes "execute_reply w (length (sent w)) = Inr res" and "res ''status_code'' = Some (PInt c)"
  shows "clock_read w (has_cluster_findings  d w) \<longleftrightarrow> c \<noteq> 200"
  using assms
  by (simp add: has_cluster_findings_def recovers split: sum.splits)

lemma persist_services_recovers:
  assumes "execute_reply w (length (sent w)) = Inr res" and "res ''status_code'' = Some (PInt c)"
  shows "clock_read w (persist_services (x # xs) d w) \<longleftrightarrow> c \<notin> {200, 201}"
  using assms
  by (simp add: persist_services_def recovers)

lemma publish_nodes_recovers:
  assumes "execute_reply w (length (sent w)) = Inr res" and "res ''status_code'' = Some (PInt c)"
  shows "clock_read w (publish_nodes (x # xs) d w) \<longleftrightarrow> c \<notin> {200, 201}"
  using assms
  by (simp add: publish_nodes_def recovers)

lemma publish_jobs_recovers:
  assumes "execute_reply w (length (sent w)) = Inr res" and "res ''status_code'' = Some (PInt c)"
  shows "clock_read w (publish_jobs (x # xs) d w) \<longleftrightarrow> c \<notin> {200, 201}"
  using assms
  by (simp add: publish_jobs_def recovers)

lemma publish_helm_releases_recovers:
  assumes "execute_reply w (length (sent w)) = Inr res" and "res ''status_code'' = Some (PInt c)"
  shows "clock_read w (publish_helm_releases (x # xs) d w) \<longleftrightarrow> c \<notin> {200, 201}"
  using assms
  by (simp add: publish_helm_releases_def recovers)

lemma publish_namespaces_recovers:
  assumes "execute_reply w (length (sent w)) = Inr res" and "res ''status_code'' = Some (PInt c)"
  shows "clock_read w (publish_namespaces (x # xs) d w) \<longleftrightarrow> c \<notin> {200, 201}"
  using assms
  by (simp add: publish_namespaces_def recovers)

lemma publish_cluster_status_recovers:
  assumes "execute_reply w (length (sent w)) = Inr res" and "res ''status_code'' = Some (PInt c)"
    and "status_dict cs ''last_alert_at'' \<noteq> None"
  shows "clock_read w (publish_cluster_status cs d w) \<longleftrightarrow> c \<notin> {200, 201}"
  using assms
  by (auto simp: publish_cluster_status_def to_db_cluster_status_def recovers)

lemma remove_deleted_job_recovers:
  assumes "requests_reply w (length (sent w)) = Inr r" and "status_code r = c"
  shows "clock_read w (remove_deleted_job (Some j) d w) \<longleftrightarrow> c \<notin> {200, 202, 204}"
  using assms
  by (auto simp: remove_deleted_job_def delete_patch_def requests_send_def response_json_def
      recovers split: option.splits)

lemma publish_cluster_nodes_recovers:
  assumes "requests_reply w (length (sent w)) = Inr r" and "status_code r = c"
  shows "clock_read w (publish_cluster_nodes node_count d w) \<longleftrightarrow> c \<notin> {200, 201, 204}"
  using assms
  by (auto simp: publish_cluster_nodes_def rpc_patch_def requests_send_def response_json_def
      recovers split: option.splits)

lemma persist_scan_recovers:
  assumes "execute_reply w (length (sent w)) = Inr res" and "res ''status_code'' = Some (PInt c)"
    and "requests_reply w (Suc (length (sent w))) = Inr r1" and "status_code r1 = c1"
  shows "clock_read w (persist_scan \<lparr>blocks = [ScanReportBlock b], annotations = a\<rparr> d w)
           \<longleftrightarrow> c \<notin> {200, 201} \<or> c1 \<notin> {200, 201, 204}"
  using assms
  by (auto simp: persist_scan_def rpc_patch_def requests_send_def
      response_json_def recovers split: option.splits sum.splits)

lemma persist_finding_recovers:
  assumes "execute_reply w (length (sent w)) = Inr res"
    and "execute_reply w (Suc (length (sent w))) = Inr res1"
    and "res1 ''status_code'' = Some (PInt c1)"
    and "enrichments f = [enrich]" and "\<not> is_scan enrich"
  shows "clock_read w (persist_finding mc f d w) \<longleftrightarrow> c1 \<noteq> 201"
  using assms
  by (auto simp: persist_finding_def recovers split: sum.splits)

lemma recovery_follows_classification:
  assumes ex: "execute_reply w (length (sent w)) = Inr res"
    and st: "res ''status_code'' = Some (PInt c)"
    and rq: "requests_reply w (length (sent w)) = Inr r"
    and rs: "status_code r = c"
    and ex1: "execute_reply w (Suc (length (sent w))) = Inr res1"
    and st1: "res1 ''status_code'' = Some (PInt c1)"
    and rq1: "requests_reply w (Suc (length (sent w))) = Inr r1"
    and rs1: "status_code r1 = c1"
    and cs: "status_dict cs ''last_alert_at'' \<noteq> None"
    and f: "enrichments f = [enrich]" "\<not> is_scan enrich"
  shows "(clock_read w (get_active_services dec1 d w) \<longleftrightarrow> c \<noteq> 200)
   \<and> (clock_read w (get_active_nodes dec2 d w) \<longleftrightarrow> c \<noteq> 200)
   \<and> (clock_read w (get_active_jobs dec3 d w) \<longleftrightarrow> c \<noteq> 200)
   \<and> (clock_read w (get_active_helm_release dec4 d w) \<longleftrightarrow> c \<noteq> 200)
   \<and> (clock_read w (get_active_namespaces dec5 d w) \<longleftrightarrow> c \<noteq> 200)
   \<and> (clock_read w (has_cluster_findings d w) \<longleftrightarrow> c \<noteq> 200)
   \<and> (clock_read w (persist_services (svc # svcs) d w) \<longleftrightarrow> c \<notin> {200, 201})
   \<and> (clock_read w (publish_nodes (nd # nds) d w) \<longleftrightarrow> c \<notin> {200, 201})
   \<and> (clock_read w (publish_jobs (jb # jbs) d w) \<longleftrightarrow> c \<notin> {200, 201})
   \<and> (clock_read w (publish_helm_releases (hr # hrs) d w) \<longleftrightarrow> c \<notin> {200, 201})
   \<and> (clock_read w (publish_namespaces (nsp # nsps) d w) \<longleftrightarrow> c \<notin> {200, 201})
   \<and> (clock_read w (publish_cluster_status cs d w) \<longleftrightarrow> c \<notin> {200, 201})
   \<and> (clock_read w (remove_deleted_job (Some deleted_job) d w) \<longleftrightarrow> c \<notin> {200, 202, 204})
   \<and> (clock_read w (publish_cluster_nodes node_count d w) \<longleftrightarrow> c \<notin> {200, 201, 204})
   \<and> (clock_read w (persist_scan \<lparr>blocks = [ScanReportBlock b], annotations = a\<rparr> d w)
        \<longleftrightarrow> c \<notin> {200, 201} \<or> c1 \<notin> {200, 201, 204})
   \<and> (clock_read w (persist_finding mc f d w) \<longleftrightarrow> c1 \<noteq> 201)"
  by (intro conjI
      get_active_services_recovers [OF ex st] get_active_nodes_recovers [OF ex st]
      get_active_jobs_recovers [OF ex st] get_active_helm_release_recovers [OF ex st]
      get_active_namespaces_recovers [OF ex st] has_cluster_findings_recovers [OF ex st]
      persist_services_recovers [OF ex st] publish_nodes_recovers [OF ex st]
      publish_jobs_recovers [OF ex st] publish_helm_releases_recovers [OF ex st]
      publish_namespaces_recovers [OF ex st] publish_cluster_status_recovers [OF ex st cs]
      remove_deleted_job_recovers [OF rq rs] publish_cluster_nodes_recovers [OF rq rs]
      persist_scan_recovers [OF ex st rq1 rs1] persist_finding_recovers [OF ex ex1 st1 f])

text \<open>
  C2 at a failing input. A finding with one plain enrichment is persisted while the
  gateway answers the evidence insert with 500 and the issue insert with 201. The
  operation returns having logged the evidence error line, sent only the two inserts and
  never read the clock: \<open>handle_supabase_error\<close>, which reads the clock on every call,
  did not run, although the sign-in gate was open. With the two answers swapped, the
  sibling check on the issue insert does run it: the clock is read twice and a sign-in is
  sent.
\<close>

theorem evidence_failure_skips_recovery:
  "fst (persist_finding mc_example plain_finding fresh_dal
          (status_replies (\<lambda>n. if n = 0 then 500 else 201))) = Inr ()
   \<and> log_lines (snd (snd (persist_finding mc_example plain_finding fresh_dal
          (status_replies (\<lambda>n. if n = 0 then 500 else 201)))))
       = [(ERROR, ''Failed to persist finding {} enrichment {} error: {}'')]
   \<and> map request_name (sent (snd (snd (persist_finding mc_example plain_finding fresh_dal
          (status_replies (\<lambda>n. if n = 0 then 500 else 201))))))
       = [''Evidence'', ''Issues'']
   \<and> ticks (snd (snd (persist_finding mc_example plain_finding fresh_dal
          (status_replies (\<lambda>n. if n = 0 then 500 else 201))))) = 0
   \<and> gate_open fresh_dal (status_replies (\<lambda>n. if n = 0 then 500 else 201))
   \<and> map request_name (sent (snd (snd (persist_finding mc_example plain_finding fresh_dal
          (status_replies (\<lambda>n. if n = 0 then 201 else 500))))))
       = [''Evidence'', ''Issues'', ''auth.sign_in'']
   \<and> ticks (snd (snd (persist_finding mc_example plain_finding fresh_dal
          (status_replies (\<lambda>n. if n = 0 then 201 else 500))))) = 2"
  by (simp add: persist_finding_def plain_finding_def plain_enrichment_def is_scan_def
      client_execute_def handle_supabase_error_eq gate_open_def logging_def
      status_replies_def quiet_world_def fresh_dal_def table_names)

end
